theory Spec2Isabelle
  imports Main
begin

section \<open>The anti-nuke engine (src/security/antinuke.js)\<close>

subsection \<open>Tenant policy\<close>

text \<open>
  The settings object as the engine reads it. A numeric property is \<open>None\<close> when the
  object does not have it (JavaScript \<open>undefined\<close> or \<open>null\<close>); a flag is \<open>True\<close> when
  the property is truthy. \<open>whitelist\<close> is \<open>None\<close> when the property is missing, in which
  case \<open>settings.whitelist.includes\<close> throws.
\<close>

record settings =
  enabled :: bool
  channelDeleteLimit :: "int option"
  channelCreateLimit :: "int option"
  roleDeleteLimit :: "int option"
  roleCreateLimit :: "int option"
  banLimit :: "int option"
  kickLimit :: "int option"
  webhookCreateLimit :: "int option"
  memberPruneLimit :: "int option"
  timeWindow :: "int option"
  punishmentType :: string
  notifyOwner :: bool
  lockdownOnTrigger :: bool
  whitelist :: "string list option"
  nightmodeEnabled :: bool
  nightmodeStartHour :: "int option"
  nightmodeEndHour :: "int option"
  nightmodeTimezone :: "string option"
  nightmodeStricterLimits :: bool
  nightmodeAutoLock :: bool
  nightmodeChannelDeleteLimit :: "int option"
  nightmodeChannelCreateLimit :: "int option"
  nightmodeRoleDeleteLimit :: "int option"
  nightmodeRoleCreateLimit :: "int option"
  nightmodeBanLimit :: "int option"
  nightmodeKickLimit :: "int option"
  nightmodeWebhookCreateLimit :: "int option"

definition DEFAULT_SETTINGS :: settings where
  "DEFAULT_SETTINGS = \<lparr>
     enabled = True,
     channelDeleteLimit = Some 3,
     channelCreateLimit = Some 5,
     roleDeleteLimit = Some 3,
     roleCreateLimit = Some 5,
     banLimit = Some 3,
     kickLimit = Some 5,
     webhookCreateLimit = Some 3,
     memberPruneLimit = Some 10,
     timeWindow = Some 10000,
     punishmentType = ''BAN'',
     notifyOwner = True,
     lockdownOnTrigger = True,
     whitelist = Some [],
     nightmodeEnabled = False,
     nightmodeStartHour = Some 23,
     nightmodeEndHour = Some 7,
     nightmodeTimezone = Some ''UTC'',
     nightmodeStricterLimits = True,
     nightmodeAutoLock = True,
     nightmodeChannelDeleteLimit = Some 1,
     nightmodeChannelCreateLimit = Some 2,
     nightmodeRoleDeleteLimit = Some 1,
     nightmodeRoleCreateLimit = Some 2,
     nightmodeBanLimit = Some 1,
     nightmodeKickLimit = Some 2,
     nightmodeWebhookCreateLimit = Some 1 \<rparr>"

text \<open>
  JavaScript \<open>a || d\<close> on a numeric property: the default \<open>d\<close> replaces every falsy
  value, that is a missing property and also the number 0.
\<close>

definition num_or :: "int option \<Rightarrow> int \<Rightarrow> int" where
  "num_or a d = (case a of None \<Rightarrow> d | Some v \<Rightarrow> if v = 0 then d else v)"

definition num_or_opt :: "int option \<Rightarrow> int option \<Rightarrow> int option" where
  "num_or_opt a d = (case a of None \<Rightarrow> d | Some v \<Rightarrow> if v = 0 then d else Some v)"

definition str_or :: "string option \<Rightarrow> string \<Rightarrow> string" where
  "str_or a d = (case a of None \<Rightarrow> d | Some v \<Rightarrow> if v = [] then d else v)"

text \<open>
  Comparisons of a number with a possibly missing number: JavaScript converts
  \<open>undefined\<close> to NaN, and every comparison with NaN is false.
\<close>

definition js_lt :: "int \<Rightarrow> int option \<Rightarrow> bool" where
  "js_lt x y = (case y of None \<Rightarrow> False | Some v \<Rightarrow> x < v)"

definition js_ge :: "int \<Rightarrow> int option \<Rightarrow> bool" where
  "js_ge x y = (case y of None \<Rightarrow> False | Some v \<Rightarrow> x \<ge> v)"

subsection \<open>Night mode and the effective limit\<close>

text \<open>
  The clock: \<open>new Date().toLocaleString('en-US', {timeZone, hour12: false, hour: '2-digit'})\<close>
  parsed by \<open>parseInt\<close>. It is a service of the runtime, so the model takes it as a
  function from the timezone name to the current local hour, \<open>None\<close> when the runtime
  rejects the timezone (a RangeError, which \<open>isNightMode\<close> catches).
\<close>

type_synonym clock = "string \<Rightarrow> int option"

definition isNightMode :: "clock \<Rightarrow> settings \<Rightarrow> bool" where
  "isNightMode clk s =
     (if \<not> nightmodeEnabled s then False
      else
        let timezone = str_or (nightmodeTimezone s) ''UTC'' in
        (case clk timezone of
           None \<Rightarrow> False
         | Some currentHour \<Rightarrow>
             let startHour = num_or (nightmodeStartHour s) 23;
                 endHour = num_or (nightmodeEndHour s) 7
             in if startHour > endHour
                then currentHour \<ge> startHour \<or> currentHour < endHour
                else currentHour \<ge> startHour \<and> currentHour < endHour))"

text \<open>\<open>settings[key]\<close> for the keys of the numeric limits; any other key has no limit.\<close>

definition limit_prop :: "settings \<Rightarrow> string \<Rightarrow> int option" where
  "limit_prop s key =
     (if key = ''channelDeleteLimit'' then channelDeleteLimit s
      else if key = ''channelCreateLimit'' then channelCreateLimit s
      else if key = ''roleDeleteLimit'' then roleDeleteLimit s
      else if key = ''roleCreateLimit'' then roleCreateLimit s
      else if key = ''banLimit'' then banLimit s
      else if key = ''kickLimit'' then kickLimit s
      else if key = ''webhookCreateLimit'' then webhookCreateLimit s
      else if key = ''memberPruneLimit'' then memberPruneLimit s
      else if key = ''timeWindow'' then timeWindow s
      else if key = ''nightmodeStartHour'' then nightmodeStartHour s
      else if key = ''nightmodeEndHour'' then nightmodeEndHour s
      else if key = ''nightmodeChannelDeleteLimit'' then nightmodeChannelDeleteLimit s
      else if key = ''nightmodeChannelCreateLimit'' then nightmodeChannelCreateLimit s
      else if key = ''nightmodeRoleDeleteLimit'' then nightmodeRoleDeleteLimit s
      else if key = ''nightmodeRoleCreateLimit'' then nightmodeRoleCreateLimit s
      else if key = ''nightmodeBanLimit'' then nightmodeBanLimit s
      else if key = ''nightmodeKickLimit'' then nightmodeKickLimit s
      else if key = ''nightmodeWebhookCreateLimit'' then nightmodeWebhookCreateLimit s
      else None)"

definition toUpperCase_char :: "char \<Rightarrow> char" where
  "toUpperCase_char c =
     (if 97 \<le> (of_char c :: nat) \<and> (of_char c :: nat) \<le> 122
      then (case c of Char b0 b1 b2 b3 b4 b5 b6 b7 \<Rightarrow> Char b0 b1 b2 b3 b4 False b6 b7)
      else c)"

definition capitalize :: "string \<Rightarrow> string" where
  "capitalize s = (case s of [] \<Rightarrow> [] | c # cs \<Rightarrow> toUpperCase_char c # cs)"

definition getEffectiveLimit :: "clock \<Rightarrow> settings \<Rightarrow> string \<Rightarrow> int option" where
  "getEffectiveLimit clk s limitType =
     (let isNight = isNightMode clk s in
      if \<not> isNight \<or> \<not> nightmodeStricterLimits s then limit_prop s limitType
      else
        let nightModeLimitKey = ''nightmode'' @ capitalize limitType
        in num_or_opt (limit_prop s nightModeLimitKey) (limit_prop s limitType))"

subsection \<open>The durable store (src/database/supabase.js)\<close>

text \<open>
  Objects that come from the store. A value is a JSON value; an object is the list of its
  properties, and \<open>property\<close> is the lookup of a property by its name (\<open>obj.name\<close>,
  \<open>undefined\<close> when the object has no property of that name). A row that the client
  returns is the object whose property names are the column names.
\<close>

datatype jsval =
    JNull
  | JBool bool
  | JNum int
  | JStr string
  | JList "string list"
  | JObj "(string \<times> jsval) list"

type_synonym object = "(string \<times> jsval) list"

definition property :: "object \<Rightarrow> string \<Rightarrow> jsval option" where
  "property obj name = map_of obj name"

text \<open>
  How the engine uses a property it has read: as a condition (\<open>truthy\<close>), as a number in a
  comparison (\<open>number\<close>; anything that is missing is \<open>None\<close>), as a string, or as an array of
  strings. The engine's numeric properties hold a number or are missing.
\<close>

definition truthy :: "jsval option \<Rightarrow> bool" where
  "truthy v =
     (case v of
        None \<Rightarrow> False
      | Some JNull \<Rightarrow> False
      | Some (JBool b) \<Rightarrow> b
      | Some (JNum n) \<Rightarrow> n \<noteq> 0
      | Some (JStr s) \<Rightarrow> s \<noteq> []
      | Some (JList xs) \<Rightarrow> True
      | Some (JObj ps) \<Rightarrow> True)"

definition number :: "jsval option \<Rightarrow> int option" where
  "number v = (case v of Some (JNum n) \<Rightarrow> Some n | _ \<Rightarrow> None)"

definition text_of :: "jsval option \<Rightarrow> string option" where
  "text_of v = (case v of Some (JStr s) \<Rightarrow> Some s | _ \<Rightarrow> None)"

definition strings :: "jsval option \<Rightarrow> string list option" where
  "strings v = (case v of Some (JList xs) \<Rightarrow> Some xs | _ \<Rightarrow> None)"

text \<open>
  The policy that the engine reads from an object \<open>obj\<close>: each field is the property of the
  name that the engine's code uses (\<open>settings.timeWindow\<close>, \<open>settings.whitelist\<close>, ...).
  A missing \<open>punishmentType\<close> is the empty string, which no case of the switch in
  \<open>punishUser\<close> matches.
\<close>

definition settings_of :: "object \<Rightarrow> settings" where
  "settings_of obj = \<lparr>
     enabled = truthy (property obj ''enabled''),
     channelDeleteLimit = number (property obj ''channelDeleteLimit''),
     channelCreateLimit = number (property obj ''channelCreateLimit''),
     roleDeleteLimit = number (property obj ''roleDeleteLimit''),
     roleCreateLimit = number (property obj ''roleCreateLimit''),
     banLimit = number (property obj ''banLimit''),
     kickLimit = number (property obj ''kickLimit''),
     webhookCreateLimit = number (property obj ''webhookCreateLimit''),
     memberPruneLimit = number (property obj ''memberPruneLimit''),
     timeWindow = number (property obj ''timeWindow''),
     punishmentType = (case text_of (property obj ''punishmentType'') of None \<Rightarrow> [] | Some s \<Rightarrow> s),
     notifyOwner = truthy (property obj ''notifyOwner''),
     lockdownOnTrigger = truthy (property obj ''lockdownOnTrigger''),
     whitelist = strings (property obj ''whitelist''),
     nightmodeEnabled = truthy (property obj ''nightmodeEnabled''),
     nightmodeStartHour = number (property obj ''nightmodeStartHour''),
     nightmodeEndHour = number (property obj ''nightmodeEndHour''),
     nightmodeTimezone = text_of (property obj ''nightmodeTimezone''),
     nightmodeStricterLimits = truthy (property obj ''nightmodeStricterLimits''),
     nightmodeAutoLock = truthy (property obj ''nightmodeAutoLock''),
     nightmodeChannelDeleteLimit = number (property obj ''nightmodeChannelDeleteLimit''),
     nightmodeChannelCreateLimit = number (property obj ''nightmodeChannelCreateLimit''),
     nightmodeRoleDeleteLimit = number (property obj ''nightmodeRoleDeleteLimit''),
     nightmodeRoleCreateLimit = number (property obj ''nightmodeRoleCreateLimit''),
     nightmodeBanLimit = number (property obj ''nightmodeBanLimit''),
     nightmodeKickLimit = number (property obj ''nightmodeKickLimit''),
     nightmodeWebhookCreateLimit = number (property obj ''nightmodeWebhookCreateLimit'') \<rparr>"

text \<open>
  The tables. \<open>antinuke_settings\<close> holds one row per guild; its declaration is not part of
  the repository, so a row has the columns that \<open>createDefaultAntiNukeSettings\<close> inserts
  (\<open>handleAntiNuke\<close> reads and updates the row by the same names).
  \<open>discord_users\<close> is declared in the migration: \<open>id\<close> is the key that the store
  generates, \<open>discord_user_id\<close> the platform's id of the user. A row of \<open>trusted_users\<close>
  has the columns that \<open>addTrustedUser\<close> inserts; its \<open>user_id\<close> refers to
  \<open>discord_users.id\<close> (the commands pass \<open>dbUser.id\<close>, and \<open>isTrustedUser\<close> looks the
  row up by that key); its own key and its time stamp \<open>added_at\<close>, which the engine does
  not read, are left out. The rows of \<open>trusted_users\<close> are kept newest first. The flags
  say how the client's calls end: \<open>unreachable\<close> makes a call reject, the others make it
  return an error object.
\<close>

datatype error = StoreError | PlatformError | TypeError

record discord_user =
  du_id :: string
  du_discord_user_id :: string
  du_username :: string

record trusted_user =
  tu_guild_id :: string
  tu_user_id :: string
  tu_added_by :: string
  tu_reason :: "string option"

record database =
  antinuke_rows :: "string \<rightharpoonup> object"
  discord_users :: "discord_user list"
  trusted_users :: "trusted_user list"
  unreachable :: bool
  select_error :: bool
  insert_error :: bool
  update_error :: bool
  trusted_error :: bool

text \<open>The object that \<open>createDefaultAntiNukeSettings\<close> inserts, which the store returns as the row.\<close>

definition default_antinuke_row :: "string \<Rightarrow> object" where
  "default_antinuke_row guildId =
     [(''guild_id'', JStr guildId),
      (''enabled'', JBool True),
      (''channel_delete_limit'', JNum 3),
      (''channel_create_limit'', JNum 5),
      (''role_delete_limit'', JNum 3),
      (''role_create_limit'', JNum 5),
      (''ban_limit'', JNum 3),
      (''kick_limit'', JNum 5),
      (''webhook_create_limit'', JNum 3),
      (''member_prune_limit'', JNum 10),
      (''time_window'', JNum 10000),
      (''punishment_type'', JStr ''BAN''),
      (''notify_owner'', JBool True),
      (''lockdown_on_trigger'', JBool True),
      (''whitelist'', JList [])]"

definition createDefaultAntiNukeSettings ::
  "database \<Rightarrow> string \<Rightarrow> (error + object option) \<times> database" where
  "createDefaultAntiNukeSettings db guildId =
     (if unreachable db then (Inl StoreError, db)
      else if insert_error db then (Inr None, db)
      else (Inr (Some (default_antinuke_row guildId)),
            db\<lparr>antinuke_rows := (antinuke_rows db)(guildId \<mapsto> default_antinuke_row guildId)\<rparr>))"

definition getAntiNukeSettings ::
  "database \<Rightarrow> string \<Rightarrow> (error + object option) \<times> database" where
  "getAntiNukeSettings db guildId =
     (if unreachable db then (Inl StoreError, db)
      else if select_error db then (Inr None, db)
      else (case antinuke_rows db guildId of
              None \<Rightarrow> createDefaultAntiNukeSettings db guildId
            | Some data \<Rightarrow> (Inr (Some data), db)))"

text \<open>
  \<open>getTrustedUsers\<close>: \<open>select('*, discord_users(username, discord_user_id))\<close> returns the
  columns of each row of \<open>trusted_users\<close> for the guild and, under the property
  \<open>discord_users\<close>, the two columns of the user row it refers to (null when there is none).
\<close>

definition trusted_user_object :: "database \<Rightarrow> trusted_user \<Rightarrow> object" where
  "trusted_user_object db t =
     [(''guild_id'', JStr (tu_guild_id t)),
      (''user_id'', JStr (tu_user_id t)),
      (''added_by'', JStr (tu_added_by t)),
      (''reason'', (case tu_reason t of None \<Rightarrow> JNull | Some r \<Rightarrow> JStr r)),
      (''discord_users'',
         (case find (\<lambda>u. du_id u = tu_user_id t) (discord_users db) of
            None \<Rightarrow> JNull
          | Some u \<Rightarrow> JObj [(''username'', JStr (du_username u)),
                             (''discord_user_id'', JStr (du_discord_user_id u))]))]"

definition getTrustedUsers :: "database \<Rightarrow> string \<Rightarrow> error + object list" where
  "getTrustedUsers db guildId =
     (if unreachable db then Inl StoreError
      else if trusted_error db then Inr []
      else Inr (map (trusted_user_object db)
                  (filter (\<lambda>t. tu_guild_id t = guildId) (trusted_users db))))"

text \<open>
  \<open>updateAntiNukeSettings(guildId, settings)\<close>: the partial object \<open>settings\<close> overwrites, in
  the stored row, the columns it names (\<open>assign\<close>); the callers name columns of the
  inserted row only. The updated row is returned.
\<close>

fun set_prop :: "string \<Rightarrow> jsval \<Rightarrow> object \<Rightarrow> object" where
  "set_prop k v [] = [(k, v)]"
| "set_prop k v ((k', v') # ps) = (if k' = k then (k, v) # ps else (k', v') # set_prop k v ps)"

definition assign :: "object \<Rightarrow> object \<Rightarrow> object" where
  "assign row updates = fold (\<lambda>(k, v). set_prop k v) updates row"

definition updateAntiNukeSettings ::
  "database \<Rightarrow> string \<Rightarrow> object \<Rightarrow> (error + object) \<times> database" where
  "updateAntiNukeSettings db guildId updates =
     (case getAntiNukeSettings db guildId of
        (Inl e, db1) \<Rightarrow> (Inl e, db1)
      | (Inr _, db1) \<Rightarrow>
          (if update_error db1 then (Inl StoreError, db1)
           else (case antinuke_rows db1 guildId of
                   None \<Rightarrow> (Inl StoreError, db1)
                 | Some row \<Rightarrow>
                     (Inr (assign row updates),
                      db1\<lparr>antinuke_rows := (antinuke_rows db1)(guildId \<mapsto> assign row updates)\<rparr>))))"

subsection \<open>Engine state: the policy cache and the sliding-window counter\<close>

text \<open>
  \<open>this.settings\<close> and the module's \<open>actionTracker\<close>. The cache holds, for a guild, the
  object that \<open>getSettings\<close> stored, kept here as the policy that the engine reads from it:
  a row of the store through \<open>settings_of\<close>, or the built-in default.
\<close>

record system =
  settings_cache :: "string \<rightharpoonup> settings"
  actionTracker :: "string \<rightharpoonup> int list"
  store :: database

definition getSettings :: "system \<Rightarrow> string \<Rightarrow> settings \<times> system" where
  "getSettings sys guildId =
     (case settings_cache sys guildId of
        Some s \<Rightarrow> (s, sys)
      | None \<Rightarrow>
          (case getAntiNukeSettings (store sys) guildId of
             (Inl e, db1) \<Rightarrow> (DEFAULT_SETTINGS, sys\<lparr>store := db1\<rparr>)
           | (Inr dbSettings, db1) \<Rightarrow>
               let s = (case dbSettings of None \<Rightarrow> DEFAULT_SETTINGS | Some row \<Rightarrow> settings_of row)
               in (s, sys\<lparr>settings_cache := (settings_cache sys)(guildId \<mapsto> s), store := db1\<rparr>)))"

definition tracker_key :: "string \<Rightarrow> string \<Rightarrow> string \<Rightarrow> string" where
  "tracker_key guildId userId actionType = guildId @ ''-'' @ userId @ ''-'' @ actionType"

text \<open>\<open>trackAction\<close>; \<open>now\<close> is the value of \<open>Date.now()\<close> at the call.\<close>

definition trackAction :: "system \<Rightarrow> int \<Rightarrow> string \<Rightarrow> string \<Rightarrow> string \<Rightarrow> nat \<times> system" where
  "trackAction sys now guildId userId actionType =
     (let key = tracker_key guildId userId actionType;
          actions = (case actionTracker sys key of None \<Rightarrow> [] | Some ts \<Rightarrow> ts);
          (s, sys1) = getSettings sys guildId;
          validActions = filter (\<lambda>time. js_lt (now - time) (timeWindow s)) actions @ [now]
      in (length validActions, sys1\<lparr>actionTracker := (actionTracker sys1)(key \<mapsto> validActions)\<rparr>))"

text \<open>A sequence of calls for one key, at the given clock readings; the counts returned.\<close>

fun trackActions :: "system \<Rightarrow> int list \<Rightarrow> string \<Rightarrow> string \<Rightarrow> string \<Rightarrow> nat list \<times> system" where
  "trackActions sys [] guildId userId actionType = ([], sys)"
| "trackActions sys (now # rest) guildId userId actionType =
     (let (c, sys1) = trackAction sys now guildId userId actionType;
          (cs, sys2) = trackActions sys1 rest guildId userId actionType
      in (c # cs, sys2))"

subsection \<open>The audit records (logSecurityEvent in src/database/supabase.js)\<close>

text \<open>
  The table \<open>security_events\<close>. \<open>logSecurityEvent\<close> first looks the user up in
  \<open>discord_users\<close> and goes on whatever the outcome; it throws exactly when the insert
  into \<open>security_events\<close> fails, which the flag \<open>security_insert_error\<close> decides.
\<close>

datatype detail =
    Text string
  | Count nat
  | Flag bool
  | Limit "int option"
  | Texts "string list"
  | Changes "(string \<times> string option \<times> string option) list"

record security_event =
  se_guildId :: string
  se_userId :: string
  eventType :: string
  severity :: string
  details :: "(string \<times> detail) list"

record audit_store =
  security_events :: "security_event list"
  security_insert_error :: bool

definition logSecurityEvent :: "audit_store \<Rightarrow> security_event \<Rightarrow> (error + unit) \<times> audit_store" where
  "logSecurityEvent a eventData =
     (if security_insert_error a then (Inl StoreError, a)
      else (Inr (), a\<lparr>security_events := security_events a @ [eventData]\<rparr>))"

subsection \<open>The platform\<close>

text \<open>
  The guild as the engine sees it through the platform client. For a role the three
  flags are the results of \<open>role.permissions.has\<close>; for a channel
  \<open>everyone_SendMessages\<close> is the SendMessages entry of the permission overwrite for the
  default role (\<open>guild.id\<close>): allowed, denied, or \<open>None\<close> when unset.
\<close>

record role =
  role_id :: string
  Administrator :: bool
  ManageGuild :: bool
  ManageRoles :: bool

record member =
  member_id :: string
  member_roles :: "role list"

record channel =
  channel_id :: string
  channel_name :: string
  has_guild :: bool
  isTextBased :: bool
  everyone_SendMessages :: "bool option"

record audit_entry =
  executor :: "string option"
  target :: "string option"

record guild =
  guild_id :: string
  ownerId :: string
  members :: "string \<rightharpoonup> member"
  channels :: "channel list"

text \<open>The requests the engine sends to the platform, and their outcomes in order.\<close>

datatype call =
    FetchAuditLogs string
  | MembersFetch string
  | RolesRemove string string
  | MemberBan string
  | MemberKick string
  | RolesSet string
  | FetchOwner
  | OwnerSend
  | OverwritesEdit string "bool option"
  | ChannelsCreate channel
  | ChannelSend string
  | ChannelDelete string
  | RolesCreate string
  | RoleDelete string
  | MembersUnban string
  | FetchWebhooks string
  | WebhookDelete string
  | SetPermissions string "string list"
  | SetName string

datatype event = Done call | Failed call

text \<open>
  The world of one handler run: the engine's state, the audit table, the guild, the
  clock, the first audit-log entry per action type (the ids of its executor and of its
  target, \<open>None\<close> when the entry has none), the webhooks of each channel, and the
  platform's behaviour: \<open>rejects\<close> says, from the requests so far, whether the next
  request fails, \<open>fresh_id\<close> names the channel a create request makes. The clock and
  \<open>Date.now()\<close> are read as one value for the whole run of a handler, and the guild's
  caches show a successful request at once.
\<close>

record world =
  engine :: system
  audit :: audit_store
  guild :: guild
  local_hour :: clock
  date_now :: int
  audit_first :: "string \<Rightarrow> audit_entry option"
  webhooks_of :: "string \<Rightarrow> string list"
  rejects :: "event list \<Rightarrow> call \<Rightarrow> bool"
  fresh_id :: "event list \<Rightarrow> string"
  trace :: "event list"

text \<open>
  Asynchronous code that may throw: a function from the state to a result or an error,
  and the state after. \<open>andThen\<close> is sequencing with \<open>await\<close>, \<open>tryCatch\<close> is
  \<open>try { ... } catch (e) { ... }\<close>.
\<close>

type_synonym ('s, 'a) act = "'s \<Rightarrow> (error + 'a) \<times> 's"

definition ret :: "'a \<Rightarrow> ('s, 'a) act" where
  "ret x s = (Inr x, s)"

definition throw :: "error \<Rightarrow> ('s, 'a) act" where
  "throw e s = (Inl e, s)"

definition gets :: "('s \<Rightarrow> 'a) \<Rightarrow> ('s, 'a) act" where
  "gets f s = (Inr (f s), s)"

definition andThen :: "('s, 'a) act \<Rightarrow> ('a \<Rightarrow> ('s, 'b) act) \<Rightarrow> ('s, 'b) act" where
  "andThen a k s = (case a s of (Inl e, s1) \<Rightarrow> (Inl e, s1) | (Inr x, s1) \<Rightarrow> k x s1)"

definition tryCatch :: "('s, 'a) act \<Rightarrow> (error \<Rightarrow> ('s, 'a) act) \<Rightarrow> ('s, 'a) act" where
  "tryCatch a h s = (case a s of (Inl e, s1) \<Rightarrow> h e s1 | (Inr x, s1) \<Rightarrow> (Inr x, s1))"

primrec forEach :: "'a list \<Rightarrow> ('a \<Rightarrow> ('s, unit) act) \<Rightarrow> ('s, unit) act" where
  "forEach [] f = ret ()"
| "forEach (x # xs) f = andThen (f x) (\<lambda>_. forEach xs f)"

fun effect :: "call \<Rightarrow> world \<Rightarrow> world" where
  "effect (OverwritesEdit i v) wd =
     wd\<lparr>guild := (guild wd)\<lparr>channels :=
        map (\<lambda>c. if channel_id c = i then c\<lparr>everyone_SendMessages := v\<rparr> else c)
          (channels (guild wd))\<rparr>\<rparr>"
| "effect (ChannelsCreate tmpl) wd =
     wd\<lparr>guild := (guild wd)\<lparr>channels :=
        channels (guild wd) @ [tmpl\<lparr>channel_id := fresh_id wd (trace wd)\<rparr>]\<rparr>\<rparr>"
| "effect (ChannelDelete i) wd =
     wd\<lparr>guild := (guild wd)\<lparr>channels := filter (\<lambda>c. channel_id c \<noteq> i) (channels (guild wd))\<rparr>\<rparr>"
| "effect c wd = wd"

definition request :: "call \<Rightarrow> (world, unit) act" where
  "request c wd =
     (if rejects wd (trace wd) c then (Inl PlatformError, wd\<lparr>trace := trace wd @ [Failed c]\<rparr>)
      else (Inr (), (effect c wd)\<lparr>trace := trace wd @ [Done c]\<rparr>))"

text \<open>\<open>guild.channels.create(...)\<close>, which returns the channel made.\<close>

definition channels_create :: "channel \<Rightarrow> (world, channel) act" where
  "channels_create tmpl wd =
     (case request (ChannelsCreate tmpl) wd of
        (Inl e, wd1) \<Rightarrow> (Inl e, wd1)
      | (Inr _, wd1) \<Rightarrow> (Inr (tmpl\<lparr>channel_id := fresh_id wd (trace wd)\<rparr>), wd1))"

text \<open>\<open>guild.members.fetch(user.id).catch(() => null)\<close>.\<close>

definition members_fetch :: "string \<Rightarrow> (world, member option) act" where
  "members_fetch userId wd =
     (case request (MembersFetch userId) wd of
        (Inl e, wd1) \<Rightarrow> (Inr None, wd1)
      | (Inr _, wd1) \<Rightarrow> (Inr (members (guild wd) userId), wd1))"

text \<open>The engine's own functions, run in the world.\<close>

definition getSettings_act :: "string \<Rightarrow> (world, settings) act" where
  "getSettings_act guildId wd =
     (let (s, sys1) = getSettings (engine wd) guildId in (Inr s, wd\<lparr>engine := sys1\<rparr>))"

definition trackAction_act :: "string \<Rightarrow> string \<Rightarrow> string \<Rightarrow> (world, nat) act" where
  "trackAction_act guildId userId actionType wd =
     (let (n, sys1) = trackAction (engine wd) (date_now wd) guildId userId actionType
      in (Inr n, wd\<lparr>engine := sys1\<rparr>))"

definition getTrustedUsers_act :: "string \<Rightarrow> (world, object list) act" where
  "getTrustedUsers_act guildId wd = (getTrustedUsers (store (engine wd)) guildId, wd)"

definition logSecurityEvent_act :: "security_event \<Rightarrow> (world, unit) act" where
  "logSecurityEvent_act eventData wd =
     (let (r, a1) = logSecurityEvent (audit wd) eventData in (r, wd\<lparr>audit := a1\<rparr>))"

definition isWhitelisted :: "string \<Rightarrow> string \<Rightarrow> (world, bool) act" where
  "isWhitelisted guildId userId =
     tryCatch
       (andThen (getSettings_act guildId) (\<lambda>s.
        andThen (getTrustedUsers_act guildId) (\<lambda>trustedUsers.
          case whitelist s of
            None \<Rightarrow> throw TypeError
          | Some wl \<Rightarrow>
              ret (userId \<in> set wl
                   \<or> list_ex (\<lambda>u. property u ''discord_user_id'' = Some (JStr userId)) trustedUsers))))
       (\<lambda>e. ret False)"

text \<open>
  The two names of the lockdown channel, byte for byte as the literals stand in the source
  file (UTF-8): four characters that are not ASCII, then the text.
\<close>

definition server_lockdown_name :: string where
  "server_lockdown_name =
     [CHR 0xC4, CHR 0x9F, CHR 0xC5, CHR 0xB8, CHR 0xE2, CHR 0x80, CHR 0x9D, CHR 0xE2, CHR 0x80, CHR 0x99]
     @ ''-server-lockdown''"

definition night_lockdown_name :: string where
  "night_lockdown_name =
     [CHR 0xC4, CHR 0x9F, CHR 0xC5, CHR 0xB8, CHR 0xC5, CHR 0x92, CHR 0xE2, CHR 0x84, CHR 0xA2]
     @ ''-night-lockdown''"

text \<open>The method \<open>notifyOwner\<close> (the policy has a flag of the same name).\<close>

definition notifyOwner_act :: "(world, unit) act" where
  "notifyOwner_act =
     tryCatch
       (andThen (request FetchOwner) (\<lambda>_.
        tryCatch (request OwnerSend) (\<lambda>e. ret ())))
       (\<lambda>e. ret ())"

definition initiateServerLockdown :: "(world, unit) act" where
  "initiateServerLockdown =
     tryCatch
       (andThen (gets guild) (\<lambda>g.
        andThen (getSettings_act (guild_id g)) (\<lambda>s.
        andThen (gets local_hour) (\<lambda>clk.
          let isNight = isNightMode clk s;
              chans = filter isTextBased (channels g)
          in
          andThen (forEach chans (\<lambda>c. request (OverwritesEdit (channel_id c) (Some False)))) (\<lambda>_.
          andThen (channels_create
                     \<lparr> channel_id = [],
                       channel_name = (if isNight then night_lockdown_name else server_lockdown_name),
                       has_guild = True, isTextBased = True, everyone_SendMessages = None \<rparr>)
            (\<lambda>lockdownChannel. request (ChannelSend (channel_id lockdownChannel))))))))
       (\<lambda>e. ret ())"

definition unlockServer :: "(world, bool) act" where
  "unlockServer =
     tryCatch
       (andThen (gets guild) (\<lambda>g.
        andThen (forEach (filter isTextBased (channels g)) (\<lambda>c.
                   if channel_name c = server_lockdown_name \<or> channel_name c = night_lockdown_name
                   then request (ChannelDelete (channel_id c))
                   else request (OverwritesEdit (channel_id c) None))) (\<lambda>_.
        ret True)))
       (\<lambda>e. ret False)"

text \<open>
  \<open>punishUser(guild, user, reason, actionCount)\<close>: the guild is the one of the world;
  the reason and the count are used in the texts of the requests only, which the model
  does not carry.
\<close>

definition punishUser :: "string \<Rightarrow> (world, unit) act" where
  "punishUser userId =
     andThen (gets guild) (\<lambda>g.
     andThen (getSettings_act (guild_id g)) (\<lambda>s.
     tryCatch
       (andThen (members_fetch userId) (\<lambda>m.
          case m of
            None \<Rightarrow> ret ()
          | Some member \<Rightarrow>
              if member_id member = ownerId g then ret ()
              else
                andThen (gets local_hour) (\<lambda>clk.
                  let isNight = isNightMode clk s;
                      dangerousRoles =
                        filter (\<lambda>r. Administrator r \<or> ManageGuild r \<or> ManageRoles r)
                          (member_roles member)
                  in
                  andThen (forEach dangerousRoles
                             (\<lambda>r. request (RolesRemove (member_id member) (role_id r)))) (\<lambda>_.
                  andThen (if punishmentType s = ''BAN'' then request (MemberBan (member_id member))
                           else if punishmentType s = ''KICK'' then request (MemberKick (member_id member))
                           else if punishmentType s = ''STRIP_ROLES'' then request (RolesSet (member_id member))
                           else ret ()) (\<lambda>_.
                  andThen (if notifyOwner s then notifyOwner_act else ret ()) (\<lambda>_.
                  if lockdownOnTrigger s \<or> (isNight \<and> nightmodeAutoLock s)
                  then initiateServerLockdown else ret ()))))))
       (\<lambda>e. ret ())))"

definition restoreChannel :: "channel \<Rightarrow> (world, unit) act" where
  "restoreChannel ch =
     tryCatch (andThen (channels_create ch) (\<lambda>_. ret ())) (\<lambda>e. ret ())"

definition handleChannelDelete :: "channel \<Rightarrow> (world, unit) act" where
  "handleChannelDelete ch =
     (if \<not> has_guild ch then ret ()
      else
        andThen (gets guild) (\<lambda>g.
        andThen (getSettings_act (guild_id g)) (\<lambda>s.
          if \<not> enabled s then ret ()
          else
            andThen (gets local_hour) (\<lambda>clk.
              let isNight = isNightMode clk s;
                  limit = getEffectiveLimit clk s ''channelDeleteLimit''
              in
              tryCatch
                (andThen (request (FetchAuditLogs ''ChannelDelete'')) (\<lambda>_.
                 andThen (gets audit_first) (\<lambda>entries.
                   case entries ''ChannelDelete'' of
                     None \<Rightarrow> ret ()
                   | Some deleteLog \<Rightarrow>
                      (case executor deleteLog of
                         None \<Rightarrow> ret ()
                       | Some ex \<Rightarrow>
                       andThen (isWhitelisted (guild_id g) ex) (\<lambda>w.
                         if w then ret ()
                         else
                           andThen (trackAction_act (guild_id g) ex ''CHANNEL_DELETE'') (\<lambda>count.
                           andThen (if js_ge (int count) limit
                                    then andThen (punishUser ex) (\<lambda>_. restoreChannel ch)
                                    else ret ()) (\<lambda>_.
                           tryCatch
                             (logSecurityEvent_act
                                \<lparr> se_guildId = guild_id g, se_userId = ex,
                                  eventType = ''CHANNEL_DELETE'',
                                  severity = (if js_ge (int count) limit then ''CRITICAL'' else ''HIGH''),
                                  details = [(''channelName'', Text (channel_name ch)),
                                             (''channelId'', Text (channel_id ch)),
                                             (''actionCount'', Count count),
                                             (''nightMode'', Flag isNight),
                                             (''limit'', Limit limit)] \<rparr>)
                             (\<lambda>dbError. ret ()))))))))
                (\<lambda>e. ret ())))))"

text \<open>
  The other handlers. A deleted, created or updated role is given by its id, its name
  and the names of its permissions (\<open>role.permissions.toArray()\<close>); a guild before and
  after an update by its name and its vanity code; a bot that joined by its id and the
  names of its permissions.
\<close>

record role_snapshot =
  snapshot_id :: string
  snapshot_name :: string
  permission_names :: "string list"

record guild_identity =
  identity_name :: string
  vanityURLCode :: "string option"

record bot_member =
  bot_id :: string
  bot_tag :: string
  bot_permissions :: "string list"

definition handleChannelCreate :: "channel \<Rightarrow> (world, unit) act" where
  "handleChannelCreate ch =
     (if \<not> has_guild ch then ret ()
      else
        andThen (gets guild) (\<lambda>g.
        andThen (getSettings_act (guild_id g)) (\<lambda>s.
          if \<not> enabled s then ret ()
          else
            andThen (gets local_hour) (\<lambda>clk.
              let isNight = isNightMode clk s;
                  limit = getEffectiveLimit clk s ''channelCreateLimit''
              in
              tryCatch
                (andThen (request (FetchAuditLogs ''ChannelCreate'')) (\<lambda>_.
                 andThen (gets audit_first) (\<lambda>entries.
                   case entries ''ChannelCreate'' of
                     None \<Rightarrow> ret ()
                   | Some createLog \<Rightarrow>
                      (case executor createLog of
                         None \<Rightarrow> ret ()
                       | Some ex \<Rightarrow>
                       andThen (isWhitelisted (guild_id g) ex) (\<lambda>w.
                         if w then ret ()
                         else
                           andThen (trackAction_act (guild_id g) ex ''CHANNEL_CREATE'') (\<lambda>count.
                           andThen (if js_ge (int count) limit
                                    then andThen (punishUser ex)
                                           (\<lambda>_. request (ChannelDelete (channel_id ch)))
                                    else ret ()) (\<lambda>_.
                           tryCatch
                             (logSecurityEvent_act
                                \<lparr> se_guildId = guild_id g, se_userId = ex,
                                  eventType = ''CHANNEL_CREATE'',
                                  severity = (if js_ge (int count) limit then ''CRITICAL'' else ''MEDIUM''),
                                  details = [(''channelName'', Text (channel_name ch)),
                                             (''actionCount'', Count count),
                                             (''nightMode'', Flag isNight),
                                             (''limit'', Limit limit)] \<rparr>)
                             (\<lambda>dbError. ret ()))))))))
                (\<lambda>e. ret ())))))"

definition restoreRole :: "role_snapshot \<Rightarrow> (world, unit) act" where
  "restoreRole r = tryCatch (request (RolesCreate (snapshot_name r))) (\<lambda>e. ret ())"

definition handleRoleDelete :: "role_snapshot \<Rightarrow> (world, unit) act" where
  "handleRoleDelete r =
     andThen (gets guild) (\<lambda>g.
     andThen (getSettings_act (guild_id g)) (\<lambda>s.
       if \<not> enabled s then ret ()
       else
         andThen (gets local_hour) (\<lambda>clk.
           let isNight = isNightMode clk s;
               limit = getEffectiveLimit clk s ''roleDeleteLimit''
           in
           tryCatch
             (andThen (request (FetchAuditLogs ''RoleDelete'')) (\<lambda>_.
              andThen (gets audit_first) (\<lambda>entries.
                case entries ''RoleDelete'' of
                  None \<Rightarrow> ret ()
                | Some deleteLog \<Rightarrow>
                   (case executor deleteLog of
                      None \<Rightarrow> ret ()
                    | Some ex \<Rightarrow>
                    andThen (isWhitelisted (guild_id g) ex) (\<lambda>w.
                      if w then ret ()
                      else
                        andThen (trackAction_act (guild_id g) ex ''ROLE_DELETE'') (\<lambda>count.
                        andThen (if js_ge (int count) limit
                                 then andThen (punishUser ex) (\<lambda>_. restoreRole r)
                                 else ret ()) (\<lambda>_.
                        tryCatch
                          (logSecurityEvent_act
                             \<lparr> se_guildId = guild_id g, se_userId = ex,
                               eventType = ''ROLE_DELETE'', severity = ''CRITICAL'',
                               details = [(''roleName'', Text (snapshot_name r)),
                                          (''actionCount'', Count count),
                                          (''nightMode'', Flag isNight),
                                          (''limit'', Limit limit)] \<rparr>)
                          (\<lambda>dbError. ret ()))))))))
             (\<lambda>e. ret ()))))"

definition handleRoleCreate :: "role_snapshot \<Rightarrow> (world, unit) act" where
  "handleRoleCreate r =
     andThen (gets guild) (\<lambda>g.
     andThen (getSettings_act (guild_id g)) (\<lambda>s.
       if \<not> enabled s then ret ()
       else
         andThen (gets local_hour) (\<lambda>clk.
           let isNight = isNightMode clk s;
               limit = getEffectiveLimit clk s ''roleCreateLimit''
           in
           tryCatch
             (andThen (request (FetchAuditLogs ''RoleCreate'')) (\<lambda>_.
              andThen (gets audit_first) (\<lambda>entries.
                case entries ''RoleCreate'' of
                  None \<Rightarrow> ret ()
                | Some createLog \<Rightarrow>
                   (case executor createLog of
                      None \<Rightarrow> ret ()
                    | Some ex \<Rightarrow>
                    andThen (isWhitelisted (guild_id g) ex) (\<lambda>w.
                      if w then ret ()
                      else
                        andThen (trackAction_act (guild_id g) ex ''ROLE_CREATE'') (\<lambda>count.
                        andThen (if js_ge (int count) limit
                                 then andThen (punishUser ex)
                                        (\<lambda>_. request (RoleDelete (snapshot_id r)))
                                 else ret ()) (\<lambda>_.
                        tryCatch
                          (logSecurityEvent_act
                             \<lparr> se_guildId = guild_id g, se_userId = ex,
                               eventType = ''ROLE_CREATE'',
                               severity = (if js_ge (int count) limit then ''HIGH'' else ''MEDIUM''),
                               details = [(''roleName'', Text (snapshot_name r)),
                                          (''actionCount'', Count count),
                                          (''nightMode'', Flag isNight),
                                          (''limit'', Limit limit)] \<rparr>)
                          (\<lambda>dbError. ret ()))))))))
             (\<lambda>e. ret ()))))"

text \<open>\<open>handleBan(ban)\<close>: the ban is given by the id and the tag of the banned user.\<close>

definition handleBan :: "string \<Rightarrow> string \<Rightarrow> (world, unit) act" where
  "handleBan bannedId bannedTag =
     andThen (gets guild) (\<lambda>g.
     andThen (getSettings_act (guild_id g)) (\<lambda>s.
       if \<not> enabled s then ret ()
       else
         andThen (gets local_hour) (\<lambda>clk.
           let isNight = isNightMode clk s;
               limit = getEffectiveLimit clk s ''banLimit''
           in
           tryCatch
             (andThen (request (FetchAuditLogs ''MemberBanAdd'')) (\<lambda>_.
              andThen (gets audit_first) (\<lambda>entries.
                case entries ''MemberBanAdd'' of
                  None \<Rightarrow> ret ()
                | Some banLog \<Rightarrow>
                   (case executor banLog of
                      None \<Rightarrow> ret ()
                    | Some ex \<Rightarrow>
                    andThen (isWhitelisted (guild_id g) ex) (\<lambda>w.
                      if w then ret ()
                      else
                        andThen (trackAction_act (guild_id g) ex ''BAN'') (\<lambda>count.
                        andThen (if js_ge (int count) limit
                                 then andThen (punishUser ex)
                                        (\<lambda>_. request (MembersUnban bannedId))
                                 else ret ()) (\<lambda>_.
                        tryCatch
                          (logSecurityEvent_act
                             \<lparr> se_guildId = guild_id g, se_userId = ex,
                               eventType = ''MASS_BAN'', severity = ''CRITICAL'',
                               details = [(''bannedUser'', Text bannedTag),
                                          (''actionCount'', Count count),
                                          (''nightMode'', Flag isNight),
                                          (''limit'', Limit limit)] \<rparr>)
                          (\<lambda>dbError. ret ()))))))))
             (\<lambda>e. ret ()))))"

text \<open>
  \<open>handleMemberRemove(member)\<close>: the member that left is given by its id and tag. Reading
  \<open>kickLog.target.id\<close> throws when the entry has no target.
\<close>

definition handleMemberRemove :: "string \<Rightarrow> string \<Rightarrow> (world, unit) act" where
  "handleMemberRemove memberId memberTag =
     andThen (gets guild) (\<lambda>g.
     andThen (getSettings_act (guild_id g)) (\<lambda>s.
       if \<not> enabled s then ret ()
       else
         andThen (gets local_hour) (\<lambda>clk.
           let isNight = isNightMode clk s;
               limit = getEffectiveLimit clk s ''kickLimit''
           in
           tryCatch
             (andThen (request (FetchAuditLogs ''MemberKick'')) (\<lambda>_.
              andThen (gets audit_first) (\<lambda>entries.
                case entries ''MemberKick'' of
                  None \<Rightarrow> ret ()
                | Some kickLog \<Rightarrow>
                   (case target kickLog of
                      None \<Rightarrow> throw TypeError
                    | Some targetId \<Rightarrow>
                       if targetId \<noteq> memberId then ret ()
                       else
                        (case executor kickLog of
                           None \<Rightarrow> ret ()
                         | Some ex \<Rightarrow>
                         andThen (isWhitelisted (guild_id g) ex) (\<lambda>w.
                           if w then ret ()
                           else
                             andThen (trackAction_act (guild_id g) ex ''KICK'') (\<lambda>count.
                             andThen (if js_ge (int count) limit then punishUser ex else ret ()) (\<lambda>_.
                             tryCatch
                               (logSecurityEvent_act
                                  \<lparr> se_guildId = guild_id g, se_userId = ex,
                                    eventType = ''MASS_KICK'', severity = ''HIGH'',
                                    details = [(''kickedUser'', Text memberTag),
                                               (''actionCount'', Count count),
                                               (''nightMode'', Flag isNight),
                                               (''limit'', Limit limit)] \<rparr>)
                               (\<lambda>dbError. ret ())))))))))
             (\<lambda>e. ret ()))))"

definition handleWebhookUpdate :: "channel \<Rightarrow> (world, unit) act" where
  "handleWebhookUpdate ch =
     (if \<not> has_guild ch then ret ()
      else
        andThen (gets guild) (\<lambda>g.
        andThen (getSettings_act (guild_id g)) (\<lambda>s.
          if \<not> enabled s then ret ()
          else
            andThen (gets local_hour) (\<lambda>clk.
              let isNight = isNightMode clk s;
                  limit = getEffectiveLimit clk s ''webhookCreateLimit''
              in
              tryCatch
                (andThen (request (FetchAuditLogs ''WebhookCreate'')) (\<lambda>_.
                 andThen (gets audit_first) (\<lambda>entries.
                   case entries ''WebhookCreate'' of
                     None \<Rightarrow> ret ()
                   | Some webhookLog \<Rightarrow>
                      (case executor webhookLog of
                         None \<Rightarrow> ret ()
                       | Some ex \<Rightarrow>
                       andThen (isWhitelisted (guild_id g) ex) (\<lambda>w.
                         if w then ret ()
                         else
                           andThen (trackAction_act (guild_id g) ex ''WEBHOOK_CREATE'') (\<lambda>count.
                           andThen (if js_ge (int count) limit
                                    then
                                      andThen (punishUser ex) (\<lambda>_.
                                      andThen (request (FetchWebhooks (channel_id ch))) (\<lambda>_.
                                      andThen (gets webhooks_of) (\<lambda>hooks.
                                      forEach (hooks (channel_id ch))
                                        (\<lambda>webhook. request (WebhookDelete webhook)))))
                                    else ret ()) (\<lambda>_.
                           tryCatch
                             (logSecurityEvent_act
                                \<lparr> se_guildId = guild_id g, se_userId = ex,
                                  eventType = ''WEBHOOK_SPAM'', severity = ''HIGH'',
                                  details = [(''channelName'', Text (channel_name ch)),
                                             (''actionCount'', Count count),
                                             (''nightMode'', Flag isNight),
                                             (''limit'', Limit limit)] \<rparr>)
                             (\<lambda>dbError. ret ()))))))))
                (\<lambda>e. ret ())))))"

definition handleRoleUpdate :: "role_snapshot \<Rightarrow> role_snapshot \<Rightarrow> (world, unit) act" where
  "handleRoleUpdate oldRole newRole =
     andThen (gets guild) (\<lambda>g.
     andThen (getSettings_act (guild_id g)) (\<lambda>s.
       if \<not> enabled s then ret ()
       else
         let dangerousPerms = [''Administrator'', ''ManageGuild'', ''ManageRoles'',
                               ''ManageChannels'', ''BanMembers'', ''KickMembers''];
             oldPerms = permission_names oldRole;
             newPerms = permission_names newRole;
             addedPerms = filter (\<lambda>p. p \<notin> set oldPerms) newPerms;
             hasDangerousPerms = list_ex (\<lambda>p. p \<in> set dangerousPerms) addedPerms
         in
         if \<not> hasDangerousPerms then ret ()
         else
           tryCatch
             (andThen (request (FetchAuditLogs ''RoleUpdate'')) (\<lambda>_.
              andThen (gets audit_first) (\<lambda>entries.
                case entries ''RoleUpdate'' of
                  None \<Rightarrow> ret ()
                | Some updateLog \<Rightarrow>
                   (case executor updateLog of
                      None \<Rightarrow> ret ()
                    | Some ex \<Rightarrow>
                    andThen (isWhitelisted (guild_id g) ex) (\<lambda>w.
                      if w then ret ()
                      else
                        andThen (punishUser ex) (\<lambda>_.
                        andThen (request (SetPermissions (snapshot_id newRole) oldPerms)) (\<lambda>_.
                        tryCatch
                          (logSecurityEvent_act
                             \<lparr> se_guildId = guild_id g, se_userId = ex,
                               eventType = ''PERMISSION_ESCALATION'', severity = ''CRITICAL'',
                               details = [(''roleName'', Text (snapshot_name newRole)),
                                          (''addedPermissions'', Texts addedPerms)] \<rparr>)
                          (\<lambda>dbError. ret ()))))))))
             (\<lambda>e. ret ())))"

definition handleGuildUpdate :: "guild_identity \<Rightarrow> guild_identity \<Rightarrow> (world, unit) act" where
  "handleGuildUpdate oldGuild newGuild =
     andThen (gets guild) (\<lambda>g.
     andThen (getSettings_act (guild_id g)) (\<lambda>s.
       if \<not> enabled s then ret ()
       else
         let changes =
               (if identity_name oldGuild \<noteq> identity_name newGuild
                then [(''NAME_CHANGE'', Some (identity_name oldGuild), Some (identity_name newGuild))]
                else [])
               @ (if vanityURLCode oldGuild \<noteq> vanityURLCode newGuild
                  then [(''VANITY_CHANGE'', vanityURLCode oldGuild, vanityURLCode newGuild)]
                  else [])
         in
         if changes = [] then ret ()
         else
           tryCatch
             (andThen (request (FetchAuditLogs ''GuildUpdate'')) (\<lambda>_.
              andThen (gets audit_first) (\<lambda>entries.
                case entries ''GuildUpdate'' of
                  None \<Rightarrow> ret ()
                | Some updateLog \<Rightarrow>
                   (case executor updateLog of
                      None \<Rightarrow> ret ()
                    | Some ex \<Rightarrow>
                    andThen (isWhitelisted (guild_id g) ex) (\<lambda>w.
                      if w then ret ()
                      else
                        andThen (punishUser ex) (\<lambda>_.
                        andThen (if list_ex (\<lambda>c. fst c = ''NAME_CHANGE'') changes
                                 then request (SetName (identity_name oldGuild))
                                 else ret ()) (\<lambda>_.
                        tryCatch
                          (logSecurityEvent_act
                             \<lparr> se_guildId = guild_id g, se_userId = ex,
                               eventType = ''GUILD_MODIFICATION'', severity = ''CRITICAL'',
                               details = [(''changes'', Changes changes)] \<rparr>)
                          (\<lambda>dbError. ret ()))))))))
             (\<lambda>e. ret ())))"

definition handleBotAdd :: "bot_member \<Rightarrow> (world, unit) act" where
  "handleBotAdd botMember =
     andThen (gets guild) (\<lambda>g.
     andThen (getSettings_act (guild_id g)) (\<lambda>s.
       if \<not> enabled s then ret ()
       else
         tryCatch
           (andThen (request (FetchAuditLogs ''BotAdd'')) (\<lambda>_.
            andThen (gets audit_first) (\<lambda>entries.
              case entries ''BotAdd'' of
                None \<Rightarrow> ret ()
              | Some botLog \<Rightarrow>
                 (case executor botLog of
                    None \<Rightarrow> ret ()
                  | Some ex \<Rightarrow>
                  andThen (isWhitelisted (guild_id g) ex) (\<lambda>w.
                    if w then ret ()
                    else
                      let botPerms = bot_permissions botMember;
                          dangerousPerms = [''Administrator'', ''ManageGuild'', ''ManageRoles'',
                                            ''BanMembers'', ''KickMembers''];
                          hasDangerous = list_ex (\<lambda>p. p \<in> set dangerousPerms) botPerms
                      in
                      if hasDangerous then
                        andThen (punishUser ex) (\<lambda>_.
                        andThen (request (MemberKick (bot_id botMember))) (\<lambda>_.
                        tryCatch
                          (logSecurityEvent_act
                             \<lparr> se_guildId = guild_id g, se_userId = ex,
                               eventType = ''DANGEROUS_BOT_ADD'', severity = ''CRITICAL'',
                               details = [(''botName'', Text (bot_tag botMember)),
                                          (''botId'', Text (bot_id botMember)),
                                          (''permissions'', Texts botPerms)] \<rparr>)
                          (\<lambda>dbError. ret ())))
                      else ret ())))))
           (\<lambda>e. ret ())))"

text \<open>
  The listeners that \<open>setupListeners\<close> registers, as one function of the gateway event.
  For \<open>guildMemberAdd\<close> the flag is \<open>member.user.bot\<close>.
\<close>

datatype gateway_event =
    ChannelDeleteEvent channel
  | ChannelCreateEvent channel
  | RoleDeleteEvent role_snapshot
  | RoleCreateEvent role_snapshot
  | GuildBanAddEvent string string
  | GuildMemberRemoveEvent string string
  | WebhookUpdateEvent channel
  | RoleUpdateEvent role_snapshot role_snapshot
  | GuildUpdateEvent guild_identity guild_identity
  | GuildMemberAddEvent bool bot_member

fun listener :: "gateway_event \<Rightarrow> (world, unit) act" where
  "listener (ChannelDeleteEvent ch) = handleChannelDelete ch"
| "listener (ChannelCreateEvent ch) = handleChannelCreate ch"
| "listener (RoleDeleteEvent r) = handleRoleDelete r"
| "listener (RoleCreateEvent r) = handleRoleCreate r"
| "listener (GuildBanAddEvent bannedId bannedTag) = handleBan bannedId bannedTag"
| "listener (GuildMemberRemoveEvent memberId memberTag) = handleMemberRemove memberId memberTag"
| "listener (WebhookUpdateEvent ch) = handleWebhookUpdate ch"
| "listener (RoleUpdateEvent oldRole newRole) = handleRoleUpdate oldRole newRole"
| "listener (GuildUpdateEvent oldGuild newGuild) = handleGuildUpdate oldGuild newGuild"
| "listener (GuildMemberAddEvent is_bot m) = (if is_bot then handleBotAdd m else ret ())"

text \<open>The action type under which each listener looks the executor up in the audit log.\<close>

fun audit_type :: "gateway_event \<Rightarrow> string" where
  "audit_type (ChannelDeleteEvent ch) = ''ChannelDelete''"
| "audit_type (ChannelCreateEvent ch) = ''ChannelCreate''"
| "audit_type (RoleDeleteEvent r) = ''RoleDelete''"
| "audit_type (RoleCreateEvent r) = ''RoleCreate''"
| "audit_type (GuildBanAddEvent bannedId bannedTag) = ''MemberBanAdd''"
| "audit_type (GuildMemberRemoveEvent memberId memberTag) = ''MemberKick''"
| "audit_type (WebhookUpdateEvent ch) = ''WebhookCreate''"
| "audit_type (RoleUpdateEvent oldRole newRole) = ''RoleUpdate''"
| "audit_type (GuildUpdateEvent oldGuild newGuild) = ''GuildUpdate''"
| "audit_type (GuildMemberAddEvent is_bot m) = ''BotAdd''"

section \<open>Enforcement of content decisions (src/bot/actions.js)\<close>

text \<open>
  What the handlers see of the message and of the member: the getters
  \<open>message.deletable\<close>, \<open>member.kickable\<close> and \<open>member.moderatable\<close> (\<open>the_member\<close> is
  \<open>None\<close> when \<open>member\<close> is null), and whether the guild has a moderation-log channel.
  Each handler sends its own direct message and its own public notice, so these carry the
  tier they belong to; the last calls of the list are the store's functions that the
  message handler awaits. Building the embed for the moderation log can throw (the builder
  validates its fields), so it is an operation of its own. The timers that remove the
  notices later do not affect the control flow and are left out.
\<close>

datatype tier = CaptchaTier | WarnTier | DeleteTier | MuteTier | KickTier | UnverifiedTier

datatype mod_call =
    SendToAuthor tier
  | DeleteMessage
  | SendToChannel tier
  | TimeoutMember int
  | KickMember
  | BuildModLogEmbed string
  | SendToModLog string
  | GetServerSettings
  | GetOrCreateUser
  | GetOrCreateServerMember
  | GetRecentMessages
  | GetUserWarnings
  | LogMessage
  | LogModerationAction string
  | AddWarning string
  | UpdateAverageRiskScore

datatype mod_event = Succeeded mod_call | Threw mod_call

record guild_member =
  kickable :: bool
  moderatable :: bool

record chat =
  deletable :: bool
  the_member :: "guild_member option"
  has_mod_log :: bool
  throws :: "mod_event list \<Rightarrow> mod_call \<Rightarrow> bool"
  log :: "mod_event list"

definition perform :: "mod_call \<Rightarrow> (chat, unit) act" where
  "perform c st =
     (if throws st (log st) c then (Inl PlatformError, st\<lparr>log := log st @ [Threw c]\<rparr>)
      else (Inr (), st\<lparr>log := log st @ [Succeeded c]\<rparr>))"

definition notifyModLog :: "string \<Rightarrow> (chat, unit) act" where
  "notifyModLog action =
     andThen (gets has_mod_log) (\<lambda>modChannel.
       if \<not> modChannel then ret ()
       else
         andThen (perform (BuildModLogEmbed action)) (\<lambda>_.
         tryCatch (perform (SendToModLog action)) (\<lambda>e. ret ())))"

definition handleCaptchaRequired :: "(chat, unit) act" where
  "handleCaptchaRequired =
     tryCatch
       (andThen (gets deletable) (\<lambda>d.
        andThen (if d then perform DeleteMessage else ret ()) (\<lambda>_.
        andThen (tryCatch (perform (SendToAuthor CaptchaTier)) (\<lambda>dmError. ret ())) (\<lambda>_.
        andThen (perform (SendToChannel CaptchaTier)) (\<lambda>_.
        andThen (gets the_member) (\<lambda>m.
        andThen (case m of
                   None \<Rightarrow> ret ()
                 | Some member \<Rightarrow>
                     if moderatable member then perform (TimeoutMember (5 * 60 * 1000)) else ret ()) (\<lambda>_.
        notifyModLog ''CAPTCHA_REQUIRED'')))))))
       (\<lambda>e. ret ())"

definition handleWarn :: "(chat, unit) act" where
  "handleWarn =
     tryCatch
       (andThen (tryCatch (perform (SendToAuthor WarnTier)) (\<lambda>dmError. ret ())) (\<lambda>_.
        andThen (perform (SendToChannel WarnTier)) (\<lambda>_.
        notifyModLog ''WARNING'')))
       (\<lambda>e. ret ())"

definition handleDelete :: "(chat, unit) act" where
  "handleDelete =
     tryCatch
       (andThen (tryCatch (perform (SendToAuthor DeleteTier)) (\<lambda>dmError. ret ())) (\<lambda>_.
        andThen (gets deletable) (\<lambda>d.
        andThen (if d then perform DeleteMessage else ret ()) (\<lambda>_.
        andThen (perform (SendToChannel DeleteTier)) (\<lambda>_.
        notifyModLog ''MESSAGE_DELETED'')))))
       (\<lambda>e. ret ())"

definition handleMute :: "(chat, unit) act" where
  "handleMute =
     tryCatch
       (andThen (tryCatch (perform (SendToAuthor MuteTier)) (\<lambda>dmError. ret ())) (\<lambda>_.
        andThen (gets deletable) (\<lambda>d.
        andThen (if d then perform DeleteMessage else ret ()) (\<lambda>_.
        andThen (gets the_member) (\<lambda>m.
          case m of
            None \<Rightarrow> handleDelete
          | Some member \<Rightarrow>
              if \<not> moderatable member then handleDelete
              else
                andThen (perform (TimeoutMember (10 * 60 * 1000))) (\<lambda>_.
                andThen (perform (SendToChannel MuteTier)) (\<lambda>_.
                notifyModLog ''USER_MUTED'')))))))
       (\<lambda>e. handleDelete)"

definition handleKick :: "(chat, unit) act" where
  "handleKick =
     tryCatch
       (andThen (tryCatch (perform (SendToAuthor KickTier)) (\<lambda>dmError. ret ())) (\<lambda>_.
        andThen (gets deletable) (\<lambda>d.
        andThen (if d then perform DeleteMessage else ret ()) (\<lambda>_.
        andThen (gets the_member) (\<lambda>m.
          case m of
            None \<Rightarrow> handleMute
          | Some member \<Rightarrow>
              if \<not> kickable member then handleMute
              else
                andThen (perform KickMember) (\<lambda>_.
                andThen (perform (SendToChannel KickTier)) (\<lambda>_.
                notifyModLog ''USER_KICKED'')))))))
       (\<lambda>e. handleMute)"

definition executeAction :: "string \<Rightarrow> (chat, string) act" where
  "executeAction recommended_action =
     tryCatch
       (if recommended_action = ''ALLOW'' then ret ''ALLOW''
        else if recommended_action = ''CAPTCHA'' then andThen handleCaptchaRequired (\<lambda>_. ret ''CAPTCHA'')
        else if recommended_action = ''WARN'' then andThen handleWarn (\<lambda>_. ret ''WARN'')
        else if recommended_action = ''DELETE'' then andThen handleDelete (\<lambda>_. ret ''DELETE'')
        else if recommended_action = ''MUTE'' then andThen handleMute (\<lambda>_. ret ''MUTE'')
        else if recommended_action = ''KICK'' then andThen handleKick (\<lambda>_. ret ''KICK'')
        else ret ''ALLOW'')
       (\<lambda>error. ret ''ERROR'')"

text \<open>The events a run adds to the log, and whether a call was attempted among them.\<close>

definition new_events :: "chat \<Rightarrow> chat \<Rightarrow> mod_event list" where
  "new_events st st' = drop (length (log st)) (log st')"

definition attempted :: "mod_call \<Rightarrow> mod_event list \<Rightarrow> bool" where
  "attempted c es = (Succeeded c \<in> set es \<or> Threw c \<in> set es)"

definition mute_unavailable :: "chat \<Rightarrow> bool" where
  "mute_unavailable st = (case the_member st of None \<Rightarrow> True | Some member \<Rightarrow> \<not> moderatable member)"

definition kick_unavailable :: "chat \<Rightarrow> bool" where
  "kick_unavailable st = (case the_member st of None \<Rightarrow> True | Some member \<Rightarrow> \<not> kickable member)"

text \<open>
  A run of an action from a state: it only extends the log, and its result and the
  events it adds satisfy \<open>Q\<close>.
\<close>

definition run_sat :: "(chat, 'a) act \<Rightarrow> chat \<Rightarrow> (error + 'a \<Rightarrow> mod_event list \<Rightarrow> bool) \<Rightarrow> bool" where
  "run_sat f st Q = (\<exists>es. snd (f st) = st\<lparr>log := log st @ es\<rparr> \<and> Q (fst (f st)) es)"

section \<open>The content risk engine (src/moderation/groq-engine.js)\<close>

text \<open>
  The input bundle and the decision. \<open>user_id\<close> is \<open>None\<close> when the bundle has no such
  property. In a decision built from the classifier's JSON object a property may be
  missing, so the numeric score and the texts are optional; a missing score behaves as
  NaN in every comparison.
\<close>

record moderation_input =
  message_content :: string
  message_history :: "string list"
  user_account_age_days :: int
  server_join_age_minutes :: int
  attachments_present :: bool
  links_present :: bool
  image_uploaded :: bool
  previous_warnings_count :: int
  captcha_verified :: bool
  user_id :: "string option"

record decision =
  risk_score :: "int option"
  risk_level :: string
  detected_categories :: "string list option"
  recommended_action :: "string option"
  reasoning :: "string option"

text \<open>
  The regular expressions of the fallback classifier, by name: a character repeated more
  than ten times, a mass mention, promotional words (spam); nitro and gift lures, "verify
  account" phrasing, shortened links (scam); incitement to self-harm, insults
  (harassment). Each literal is created anew in every call, so \<open>test\<close> starts from the
  beginning of the text. The runtime's regex engine (\<open>pattern.test(message_content)\<close>)
  is a parameter of the model.
\<close>

datatype pattern =
    RepeatedChar | MassMention | PromoWords
  | NitroLure | VerifyLure | ShortLink
  | SelfHarm | Insult

text \<open>
  The surroundings of the engine: the owner identity (\<open>process.env.DISCORD_OWNER_ID\<close>,
  \<open>None\<close> when unset), the classifier (\<open>None\<close> when the call or the parsing of its answer
  throws; otherwise the parsed object, with score, action, categories and reasoning), and
  the regex engine.
\<close>

record engine_env =
  owner_id :: "string option"
  classifier :: "moderation_input \<Rightarrow> decision option"
  matches :: "pattern \<Rightarrow> string \<Rightarrow> bool"

definition owner_decision :: decision where
  "owner_decision = \<lparr> risk_score = Some 0, risk_level = ''SAFE'', detected_categories = Some [],
     recommended_action = Some ''ALLOW'', reasoning = Some ''Bot owner - moderation bypassed'' \<rparr>"

definition captcha_decision :: decision where
  "captcha_decision = \<lparr> risk_score = Some 50, risk_level = ''SUSPICIOUS'',
     detected_categories = Some [''NEW_USER_UNVERIFIED''],
     recommended_action = Some ''CAPTCHA'',
     reasoning = Some ''New or flagged user has not completed CAPTCHA verification.'' \<rparr>"

definition shouldRequireCaptcha :: "moderation_input \<Rightarrow> bool" where
  "shouldRequireCaptcha inp =
     (if captcha_verified inp then False
      else user_account_age_days inp < 7 \<or> server_join_age_minutes inp < 10
           \<or> previous_warnings_count inp > 0)"

definition level_of :: "int option \<Rightarrow> string" where
  "level_of score =
     (case score of
        None \<Rightarrow> ''DANGEROUS''
      | Some v \<Rightarrow> if v \<le> 30 then ''SAFE'' else if v \<le> 65 then ''SUSPICIOUS'' else ''DANGEROUS'')"

definition adjustForUserHistory :: "decision \<Rightarrow> moderation_input \<Rightarrow> decision" where
  "adjustForUserHistory aiResponse inp =
     (let n = previous_warnings_count inp;
          score0 = risk_score aiResponse;
          action0 = recommended_action aiResponse;
          score = (if n > 0 then map_option (\<lambda>v. min (v + n * 10) 100) score0 else score0);
          action =
            (if n > 0 then
               (if n \<ge> 3 \<and> action0 = Some ''WARN'' then Some ''MUTE''
                else if n \<ge> 2 \<and> action0 = Some ''DELETE'' then Some ''MUTE''
                else if n \<ge> 4 \<and> action0 = Some ''MUTE'' then Some ''KICK''
                else action0)
             else action0)
      in aiResponse\<lparr>risk_score := score, risk_level := level_of score, recommended_action := action\<rparr>)"

definition determineAction :: "int \<Rightarrow> string \<Rightarrow> int \<Rightarrow> string" where
  "determineAction score riskLevel warningCount =
     (if riskLevel = ''SAFE'' then ''ALLOW''
      else if riskLevel = ''SUSPICIOUS'' then
        (if warningCount = 0 then ''WARN'' else if warningCount = 1 then ''DELETE'' else ''MUTE'')
      else if riskLevel = ''DANGEROUS'' then
        (if score \<ge> 85 \<and> warningCount \<ge> 2 then ''KICK''
         else if score \<ge> 70 then ''MUTE'' else ''DELETE'')
      else ''WARN'')"

text \<open>One group of patterns: each match pushes the category and adds the weight.\<close>

fun scan :: "(pattern \<Rightarrow> string \<Rightarrow> bool) \<Rightarrow> string \<Rightarrow> string \<Rightarrow> int \<Rightarrow> pattern list
             \<Rightarrow> string list \<times> int \<Rightarrow> string list \<times> int" where
  "scan m text category weight [] acc = acc"
| "scan m text category weight (p # ps) (cats, score) =
     scan m text category weight ps
       (if m p text then (cats @ [category], score + weight) else (cats, score))"

text \<open>\<open>[...new Set(xs)]\<close>: the first occurrence of each element, in order.\<close>

fun dedupe :: "string list \<Rightarrow> string list" where
  "dedupe [] = []"
| "dedupe (x # xs) = x # dedupe (filter (\<lambda>y. y \<noteq> x) xs)"

fun join_with :: "string \<Rightarrow> string list \<Rightarrow> string" where
  "join_with sep [] = []"
| "join_with sep [x] = x"
| "join_with sep (x # y # ys) = x @ sep @ join_with sep (y # ys)"

definition fallbackAnalysis :: "engine_env \<Rightarrow> moderation_input \<Rightarrow> decision" where
  "fallbackAnalysis env inp =
     (if user_id inp = owner_id env then owner_decision
      else
        let text = message_content inp;
            a0 = ([], 0);
            a1 = scan (matches env) text ''SPAM'' 20 [RepeatedChar, MassMention, PromoWords] a0;
            a2 = scan (matches env) text ''SCAM'' 30 [NitroLure, VerifyLure, ShortLink] a1;
            a3 = scan (matches env) text ''HARASSMENT'' 25 [SelfHarm, Insult] a2;
            a4 = (if user_account_age_days inp < 7
                  then (fst a3 @ [''NEW_ACCOUNT''], snd a3 + 10) else a3);
            a5 = (if server_join_age_minutes inp < 5
                  then (fst a4 @ [''IMMEDIATE_POST_JOIN''], snd a4 + 15) else a4);
            a6 = (if links_present inp
                  then (fst a5 @ [''CONTAINS_LINKS''], snd a5 + 10) else a5);
            a7 = (if previous_warnings_count inp > 0
                  then (fst a6 @ [''REPEAT_OFFENDER''], snd a6 + previous_warnings_count inp * 10)
                  else a6);
            detectedCategories = fst a7;
            riskScore = min (snd a7) 100;
            level = level_of (Some riskScore)
        in \<lparr> risk_score = Some riskScore, risk_level = level,
             detected_categories = Some (dedupe detectedCategories),
             recommended_action = Some (determineAction riskScore level (previous_warnings_count inp)),
             reasoning = Some (''Fallback analysis: '' @
               (if detectedCategories = [] then ''No violations detected''
                else join_with '', '' detectedCategories)) \<rparr>)"

definition analyzeMessageWithGroq :: "engine_env \<Rightarrow> moderation_input \<Rightarrow> decision" where
  "analyzeMessageWithGroq env inp =
     (if user_id inp = owner_id env then owner_decision
      else if shouldRequireCaptcha inp then captcha_decision
      else case classifier env inp of
             Some aiResponse \<Rightarrow> adjustForUserHistory aiResponse inp
           | None \<Rightarrow> fallbackAnalysis env inp)"

section \<open>The message handler (src/bot/discord-bot.js)\<close>

text \<open>
  The message with what the helpers compute from it (account age, join age, links,
  images) and what the store answers for it (the server settings, \<open>None\<close> when there are
  none, the lengths of the recent messages, the number of warnings, the CAPTCHA flag of
  the user). \<open>recent_summaries\<close> are the texts \<open>[n chars]\<close> made from the recent
  messages; \<open>has_verified_role\<close> is read only when the member is present.
\<close>

record server_settings =
  verification_enabled :: bool
  verified_role_id :: "string option"
  verification_channel_id :: "string option"

record incoming =
  author_id :: string
  channel_ident :: string
  content :: string
  has_attachments :: bool
  has_links :: bool
  has_images :: bool
  account_age_days :: int
  join_age_minutes :: int
  has_verified_role :: bool
  stored_settings :: "server_settings option"
  recent_summaries :: "string list"
  warnings_count :: int
  user_captcha_verified :: bool

definition moderationInput :: "incoming \<Rightarrow> bool \<Rightarrow> moderation_input" where
  "moderationInput msg member_present =
     \<lparr> message_content = content msg,
       message_history = recent_summaries msg,
       user_account_age_days = account_age_days msg,
       server_join_age_minutes = (if member_present then join_age_minutes msg else 999),
       attachments_present = has_attachments msg,
       links_present = has_links msg,
       image_uploaded = has_images msg,
       previous_warnings_count = warnings_count msg,
       captcha_verified = user_captcha_verified msg,
       user_id = Some (author_id msg) \<rparr>"

text \<open>The part of \<open>handleMessage\<close> under its heading "continue with normal AI moderation".\<close>

definition aiModeration :: "engine_env \<Rightarrow> incoming \<Rightarrow> (chat, unit) act" where
  "aiModeration env msg =
     andThen (gets the_member) (\<lambda>m.
     andThen (perform GetOrCreateUser) (\<lambda>_.
     andThen (if m \<noteq> None then perform GetOrCreateServerMember else ret ()) (\<lambda>_.
     andThen (perform GetRecentMessages) (\<lambda>_.
     andThen (perform GetUserWarnings) (\<lambda>_.
     andThen (perform LogMessage) (\<lambda>_.
       let moderationResult = analyzeMessageWithGroq env (moderationInput msg (m \<noteq> None)) in
       andThen (executeAction (case recommended_action moderationResult of None \<Rightarrow> [] | Some a \<Rightarrow> a))
         (\<lambda>actionTaken.
       andThen (perform (LogModerationAction actionTaken)) (\<lambda>_.
       andThen (if actionTaken \<noteq> ''ALLOW'' \<and> actionTaken \<noteq> ''CAPTCHA''
                then perform (AddWarning (if risk_level moderationResult = ''DANGEROUS''
                                          then ''HIGH'' else ''MEDIUM''))
                else ret ()) (\<lambda>_.
       perform UpdateAverageRiskScore)))))))))"

definition blockUnverified :: "(chat, unit) act" where
  "blockUnverified =
     tryCatch
       (andThen (gets deletable) (\<lambda>d.
        andThen (if d then perform DeleteMessage else ret ()) (\<lambda>_.
        andThen (perform (SendToChannel UnverifiedTier)) (\<lambda>_.
        andThen (perform GetOrCreateUser) (\<lambda>_.
        andThen (perform LogMessage) (\<lambda>_.
        perform (LogModerationAction ''DELETE'')))))))
       (\<lambda>e. ret ())"

definition handleMessage :: "engine_env \<Rightarrow> incoming \<Rightarrow> (chat, unit) act" where
  "handleMessage env msg =
     (if Some (author_id msg) = owner_id env then ret ()
      else
        andThen (perform GetServerSettings) (\<lambda>_.
        andThen (gets the_member) (\<lambda>m.
          let gated =
                (case stored_settings msg of
                   None \<Rightarrow> False
                 | Some s \<Rightarrow>
                     verification_enabled s
                     \<and> Some (channel_ident msg) \<noteq> verification_channel_id s
                     \<and> (case verified_role_id s of None \<Rightarrow> False | Some r \<Rightarrow> r \<noteq> []))
          in
          if gated then
            (case m of
               None \<Rightarrow> throw TypeError
             | Some member \<Rightarrow>
                 if \<not> has_verified_role msg then blockUnverified else aiModeration env msg)
          else aiModeration env msg)))"

section \<open>Definitions for the statements\<close>

text \<open>The timestamps stored for a key: \<open>actionTracker.get(key)\<close>, empty when the key is new.\<close>

definition stored :: "system \<Rightarrow> string \<Rightarrow> string \<Rightarrow> string \<Rightarrow> int list" where
  "stored sys guildId userId actionType =
     (case actionTracker sys (tracker_key guildId userId actionType) of
        None \<Rightarrow> [] | Some ts \<Rightarrow> ts)"

text \<open>
  Clock readings that lie in one window: every reading is less than \<open>w\<close> after each
  earlier one.
\<close>

fun within_window :: "int \<Rightarrow> int list \<Rightarrow> bool" where
  "within_window w [] = True"
| "within_window w (t # ts) = (list_all (\<lambda>t'. t' - t < w) ts \<and> within_window w ts)"

text \<open>
  The counter in the words of the specification: a call prunes the stored timestamps older
  than \<open>now - window\<close>, appends \<open>now\<close> and returns the resulting length;
  \<open>sliding_window_spec\<close> gives the counts that a sequence of calls returns.
\<close>

definition record_spec :: "int \<Rightarrow> int list \<Rightarrow> int \<Rightarrow> int list" where
  "record_spec window timestamps now = filter (\<lambda>t. \<not> t < now - window) timestamps @ [now]"

fun sliding_window_spec :: "int \<Rightarrow> int list \<Rightarrow> int list \<Rightarrow> nat list" where
  "sliding_window_spec window timestamps [] = []"
| "sliding_window_spec window timestamps (now # rest) =
     length (record_spec window timestamps now)
       # sliding_window_spec window (record_spec window timestamps now) rest"

text \<open>
  The interval test in the words of the specification, on the configured hours: a start
  hour greater than the end hour wraps midnight, otherwise the interval lies in one day.
\<close>

definition night_interval_spec :: "int \<Rightarrow> int \<Rightarrow> int \<Rightarrow> bool" where
  "night_interval_spec startHour endHour h =
     (if startHour > endHour then h \<ge> startHour \<or> h < endHour
      else h \<ge> startHour \<and> h < endHour)"

text \<open>
  Two properties of an action, used to compare runs that differ in the audit table only.
  An action is blind to the audit table when it neither reads nor writes it. An action
  swallows a failing audit write when, on a table whose insert fails, it ends as it does
  on the same table with a working insert, except that the table is left as it was.
\<close>

definition audit_blind :: "(world, 'a) act \<Rightarrow> bool" where
  "audit_blind a = (\<forall>x wd. a (wd\<lparr>audit := x\<rparr>) = (fst (a wd), (snd (a wd))\<lparr>audit := x\<rparr>))"

definition audit_swallow :: "(world, 'a) act \<Rightarrow> bool" where
  "audit_swallow a =
     (\<forall>x wd. security_insert_error x \<longrightarrow>
        a (wd\<lparr>audit := x\<rparr>) =
          (fst (a (wd\<lparr>audit := x\<lparr>security_insert_error := False\<rparr>\<rparr>)),
           (snd (a (wd\<lparr>audit := x\<lparr>security_insert_error := False\<rparr>\<rparr>)))\<lparr>audit := x\<rparr>))"

text \<open>What one round of the loop of \<open>unlockServer\<close> does to the guild's channels.\<close>

definition unlock_step :: "channel \<Rightarrow> channel list \<Rightarrow> channel list" where
  "unlock_step c chans =
     (if channel_name c = server_lockdown_name \<or> channel_name c = night_lockdown_name
      then filter (\<lambda>d. channel_id d \<noteq> channel_id c) chans
      else map (\<lambda>d. if channel_id d = channel_id c then d\<lparr>everyone_SendMessages := None\<rparr> else d) chans)"

text \<open>The test of \<open>unlockServer\<close> for the announcement channel.\<close>

definition lockdown_named :: "channel \<Rightarrow> bool" where
  "lockdown_named c = (channel_name c = server_lockdown_name \<or> channel_name c = night_lockdown_name)"

text \<open>
  The call behind an event, and the calls each tier may make: the moderation-log step,
  the delete tier, and the mute tier (which may fall through to the delete tier).
\<close>

fun event_call :: "mod_event \<Rightarrow> mod_call" where
  "event_call (Succeeded c) = c"
| "event_call (Threw c) = c"

fun modlog_call :: "mod_call \<Rightarrow> bool" where
  "modlog_call (BuildModLogEmbed a) = True"
| "modlog_call (SendToModLog a) = True"
| "modlog_call c = False"

definition delete_call :: "mod_call \<Rightarrow> bool" where
  "delete_call c = (c = SendToAuthor DeleteTier \<or> c = DeleteMessage \<or> c = SendToChannel DeleteTier
                    \<or> modlog_call c)"

definition mute_call :: "mod_call \<Rightarrow> bool" where
  "mute_call c = (c = SendToAuthor MuteTier \<or> c = TimeoutMember (10 * 60 * 1000)
                  \<or> c = SendToChannel MuteTier \<or> delete_call c)"

definition only_calls :: "(mod_call \<Rightarrow> bool) \<Rightarrow> mod_event list \<Rightarrow> bool" where
  "only_calls P es = list_all (\<lambda>e. P (event_call e)) es"

text \<open>A run that did nothing but, at most, fetch the audit log.\<close>

definition only_audit_fetch :: "string \<Rightarrow> world \<Rightarrow> world \<Rightarrow> bool" where
  "only_audit_fetch kind wd wd' =
     (actionTracker (engine wd') = actionTracker (engine wd)
      \<and> guild wd' = guild wd
      \<and> audit wd' = audit wd
      \<and> (trace wd' = trace wd
         \<or> trace wd' = trace wd @ [Done (FetchAuditLogs kind)]
         \<or> trace wd' = trace wd @ [Failed (FetchAuditLogs kind)]))"

text \<open>Concrete policies and states used in the examples below.\<close>

definition midnight_start_settings :: settings where
  "midnight_start_settings =
     DEFAULT_SETTINGS\<lparr>nightmodeEnabled := True, nightmodeStartHour := Some 0,
                      nightmodeEndHour := Some 5\<rparr>"

definition midnight_end_settings :: settings where
  "midnight_end_settings =
     DEFAULT_SETTINGS\<lparr>nightmodeEnabled := True, nightmodeStartHour := Some 22,
                      nightmodeEndHour := Some 0\<rparr>"

definition empty_store :: database where
  "empty_store = \<lparr> antinuke_rows = Map.empty, discord_users = [], trusted_users = [],
     unreachable = False, select_error = False,
     insert_error = False, update_error = False, trusted_error = False \<rparr>"

definition fresh_system :: system where
  "fresh_system = \<lparr> settings_cache = Map.empty, actionTracker = Map.empty, store = empty_store \<rparr>"

text \<open>The engine after it has loaded the policy of guild 1 once, and the update that disables it.\<close>

definition cached_system :: system where
  "cached_system = snd (getSettings fresh_system ''1'')"

definition disable :: object where
  "disable = [(''enabled'', JBool False)]"

text \<open>An engine whose store cannot be reached, so that every policy is the built-in default.\<close>

definition offline_system :: system where
  "offline_system = fresh_system\<lparr>store := empty_store\<lparr>unreachable := True\<rparr>\<rparr>"

definition rules_channel :: channel where
  "rules_channel = \<lparr> channel_id = ''11'', channel_name = ''rules'', has_guild = True,
     isTextBased = True, everyone_SendMessages = None \<rparr>"

definition admin_role :: role where
  "admin_role = \<lparr> role_id = ''900'', Administrator = True, ManageGuild = False, ManageRoles = False \<rparr>"

definition general_channel :: channel where
  "general_channel = \<lparr> channel_id = ''10'', channel_name = ''general'', has_guild = True,
     isTextBased = True, everyone_SendMessages = Some True \<rparr>"

definition demo_guild :: guild where
  "demo_guild = \<lparr> guild_id = ''1'', ownerId = ''100'',
     members = [''100'' \<mapsto> \<lparr> member_id = ''100'', member_roles = [admin_role] \<rparr>,
                ''200'' \<mapsto> \<lparr> member_id = ''200'', member_roles = [admin_role] \<rparr>],
     channels = [general_channel] \<rparr>"

text \<open>
  A guild for which the engine has cached the built-in default policy (its first load of
  the policy got an error object from the store), in which member 200 has deleted two
  channels in the last two milliseconds and the audit log names member 200 as the
  executor of the event at hand.
\<close>

definition demo_world :: world where
  "demo_world = \<lparr> engine = fresh_system\<lparr>settings_cache := [''1'' \<mapsto> DEFAULT_SETTINGS],
                       actionTracker := [''1-200-CHANNEL_DELETE'' \<mapsto> [998, 999]]\<rparr>,
     audit = \<lparr> security_events = [], security_insert_error = False \<rparr>,
     guild = demo_guild,
     local_hour = (\<lambda>tz. Some 12),
     date_now = 1000,
     audit_first = (\<lambda>t. Some \<lparr> executor = Some ''200'', target = None \<rparr>),
     webhooks_of = (\<lambda>c. []),
     rejects = (\<lambda>tr c. False),
     fresh_id = (\<lambda>tr. replicate (Suc (length tr)) CHR ''n''),
     trace = [] \<rparr>"

text \<open>The same guild with a stored policy whose whitelist holds member 200, not yet loaded.\<close>

definition whitelisting_world :: world where
  "whitelisting_world =
     demo_world\<lparr>engine := fresh_system\<lparr>store := empty_store\<lparr>antinuke_rows :=
        [''1'' \<mapsto> assign (default_antinuke_row ''1'') [(''whitelist'', JList [''200''])]]\<rparr>\<rparr>\<rparr>"

text \<open>The guild of \<open>demo_world\<close> with member 200 in the table of trusted users.\<close>

definition trusted_world :: world where
  "trusted_world =
     demo_world\<lparr>engine := (engine demo_world)\<lparr>store := empty_store\<lparr>
        discord_users := [\<lparr> du_id = ''u-200'', du_discord_user_id = ''200'', du_username = ''mallory'' \<rparr>],
        trusted_users := [\<lparr> tu_guild_id = ''1'', tu_user_id = ''u-200'', tu_added_by = ''100'',
                            tu_reason = None \<rparr>]\<rparr>\<rparr>\<rparr>"

definition failing_audit_world :: world where
  "failing_audit_world = demo_world\<lparr>audit := \<lparr> security_events = [], security_insert_error = True \<rparr>\<rparr>"

definition announcements_channel :: channel where
  "announcements_channel = \<lparr> channel_id = ''12'', channel_name = ''announcements'', has_guild = True,
     isTextBased = True, everyone_SendMessages = Some False \<rparr>"

definition two_channel_world :: world where
  "two_channel_world =
     demo_world\<lparr>guild := demo_guild\<lparr>channels := [general_channel, announcements_channel]\<rparr>\<rparr>"

definition locked_world :: world where
  "locked_world =
     demo_world\<lparr>guild := demo_guild\<lparr>channels :=
        [general_channel\<lparr>everyone_SendMessages := Some False\<rparr>, announcements_channel,
         \<lparr> channel_id = ''13'', channel_name = server_lockdown_name, has_guild = True,
           isTextBased = True, everyone_SendMessages = None \<rparr>]\<rparr>\<rparr>"

definition demo_chat :: chat where
  "demo_chat = \<lparr> deletable = True,
     the_member = Some \<lparr> kickable = False, moderatable = True \<rparr>,
     has_mod_log = False,
     throws = (\<lambda>tr c. c = TimeoutMember (10 * 60 * 1000)),
     log = [] \<rparr>"

text \<open>
  Two chats with a member who cannot be kicked but can be timed out: in the first the
  platform rejects the deletion of a message that was deleted before in the run, in the
  second the message is gone from the start and every deletion is rejected.
\<close>

definition redelete_chat :: chat where
  "redelete_chat = \<lparr> deletable = True,
     the_member = Some \<lparr> kickable = False, moderatable = True \<rparr>,
     has_mod_log = False,
     throws = (\<lambda>tr c. c = DeleteMessage \<and> Succeeded DeleteMessage \<in> set tr),
     log = [] \<rparr>"

definition gone_message_chat :: chat where
  "gone_message_chat = \<lparr> deletable = True,
     the_member = Some \<lparr> kickable = False, moderatable = True \<rparr>,
     has_mod_log = False,
     throws = (\<lambda>tr c. c = DeleteMessage),
     log = [] \<rparr>"

definition hostile_env :: engine_env where
  "hostile_env = \<lparr> owner_id = Some ''42'',
     classifier = (\<lambda>inp. Some \<lparr> risk_score = Some 95, risk_level = ''DANGEROUS'',
        detected_categories = Some [''SCAM''], recommended_action = Some ''KICK'',
        reasoning = Some ''Phishing link'' \<rparr>),
     matches = (\<lambda>p text. True) \<rparr>"

definition scam_input :: "string \<Rightarrow> moderation_input" where
  "scam_input uid = \<lparr> message_content = ''WIN FREE DISCORD NITRO bit.ly/xyz'',
     message_history = [], user_account_age_days = 1, server_join_age_minutes = 1,
     attachments_present = False, links_present = True, image_uploaded = False,
     previous_warnings_count = 5, captcha_verified = False, user_id = Some uid \<rparr>"

definition owner_message :: incoming where
  "owner_message = \<lparr> author_id = ''42'', channel_ident = ''10'',
     content = ''WIN FREE DISCORD NITRO bit.ly/xyz'',
     has_attachments = False, has_links = True, has_images = False,
     account_age_days = 1, join_age_minutes = 1, has_verified_role = False,
     stored_settings = Some \<lparr> verification_enabled = True, verified_role_id = Some ''77'',
                               verification_channel_id = Some ''11'' \<rparr>,
     recent_summaries = [], warnings_count = 5, user_captcha_verified = False \<rparr>"

(* ==== properties ==== *)

section \<open>Properties\<close>

subsection \<open>Night mode\<close>

lemma isNightMode_truthy_hours:
  assumes "nightmodeEnabled s" "nightmodeStartHour s = Some a" "nightmodeEndHour s = Some b"
    "a \<noteq> 0" "b \<noteq> 0" "clk (str_or (nightmodeTimezone s) ''UTC'') = Some h"
  shows "isNightMode clk s = night_interval_spec a b h"
  using assms by (simp add: isNightMode_def night_interval_spec_def num_or_def)

lemma isNightMode_disabled: "\<not> nightmodeEnabled s \<Longrightarrow> \<not> isNightMode clk s"
  by (simp add: isNightMode_def)

text \<open>
  Claim C10. With night mode enabled and the current local hour \<open>h\<close>, a configured
  start hour 0 is evaluated as 23 and a configured end hour 0 as 7: the interval that
  \<open>isNightMode\<close> tests \<open>h\<close> against runs from 23 in the first case and to 7 in the
  second, whatever the other hour is, and with both hours 0 it is the interval from 23 to
  7. So \<open>isNightMode\<close> cannot tell the configured value 0 from the default: setting the
  hour to 0 or to its default gives the same answer for every policy and clock. With
  start 0 and end 5 the engine reports night at hour 23, which the configured interval
  does not contain.
\<close>

theorem isNightMode_zero_hour_replaced:
  assumes "nightmodeEnabled s" and "clk (str_or (nightmodeTimezone s) ''UTC'') = Some h"
  shows "(nightmodeStartHour s = Some 0 \<and> nightmodeEndHour s = Some b \<and> b \<noteq> 0
            \<longrightarrow> isNightMode clk s = night_interval_spec 23 b h)
       \<and> (nightmodeStartHour s = Some a \<and> a \<noteq> 0 \<and> nightmodeEndHour s = Some 0
            \<longrightarrow> isNightMode clk s = night_interval_spec a 7 h)
       \<and> (nightmodeStartHour s = Some 0 \<and> nightmodeEndHour s = Some 0
            \<longrightarrow> isNightMode clk s = night_interval_spec 23 7 h)
       \<and> isNightMode clk (s\<lparr>nightmodeStartHour := Some 0\<rparr>) = isNightMode clk (s\<lparr>nightmodeStartHour := Some 23\<rparr>)
       \<and> isNightMode clk (s\<lparr>nightmodeEndHour := Some 0\<rparr>) = isNightMode clk (s\<lparr>nightmodeEndHour := Some 7\<rparr>)
       \<and> isNightMode (\<lambda>tz. Some 23) midnight_start_settings
       \<and> \<not> night_interval_spec 0 5 23"
  using assms
  by (simp add: isNightMode_def num_or_def night_interval_spec_def midnight_start_settings_def
      DEFAULT_SETTINGS_def Let_def str_or_def split: option.splits)

theorem isNightMode_zero_hour_replaced_witness:
  "nightmodeEnabled midnight_start_settings
   \<and> nightmodeStartHour midnight_start_settings = Some 0
   \<and> nightmodeEndHour midnight_start_settings = Some 5
   \<and> isNightMode (\<lambda>tz. Some 23) midnight_start_settings = night_interval_spec 23 5 23
   \<and> night_interval_spec 23 5 23
   \<and> \<not> night_interval_spec 0 5 23
   \<and> isNightMode (\<lambda>tz. Some 12) midnight_start_settings = night_interval_spec 23 5 12
   \<and> \<not> night_interval_spec 23 5 12"
proof -
  have e: "nightmodeEnabled midnight_start_settings"
    and h: "nightmodeStartHour midnight_start_settings = Some 0"
      "nightmodeEndHour midnight_start_settings = Some 5"
    by (simp_all add: midnight_start_settings_def DEFAULT_SETTINGS_def)
  have c: "(\<lambda>tz. Some 23) (str_or (nightmodeTimezone midnight_start_settings) ''UTC'') = Some (23::int)"
    and d: "(\<lambda>tz. Some 12) (str_or (nightmodeTimezone midnight_start_settings) ''UTC'') = Some (12::int)"
    by simp_all
  show ?thesis
    using isNightMode_zero_hour_replaced[OF e c, where b = 5]
      isNightMode_zero_hour_replaced[OF e d, where b = 5] e h
    by (simp add: night_interval_spec_def)
qed

text \<open>
  Claim C2, at the inputs where the code departs from it. With start 0 and end 5 the
  configured interval lies in one day and excludes hour 23, but \<open>isNightMode\<close> reports
  night; with start 22 and end 0 the configured interval wraps midnight and excludes hour
  3, but \<open>isNightMode\<close> reports night. For hours other than 0 the interval test is the
  specified one (\<open>isNightMode_truthy_hours\<close>, \<open>isNightMode_spec_examples\<close>).
\<close>

theorem isNightMode_midnight_hours_misjudged:
  "isNightMode (\<lambda>tz. Some 23) midnight_start_settings = True
   \<and> night_interval_spec 0 5 23 = False
   \<and> isNightMode (\<lambda>tz. Some 3) midnight_end_settings = True
   \<and> night_interval_spec 22 0 3 = False"
  by (simp add: isNightMode_def num_or_def night_interval_spec_def midnight_start_settings_def
      midnight_end_settings_def DEFAULT_SETTINGS_def Let_def str_or_def)

lemma isNightMode_spec_examples:
  "isNightMode (\<lambda>tz. Some 2) (DEFAULT_SETTINGS\<lparr>nightmodeEnabled := True\<rparr>)
   \<and> \<not> isNightMode (\<lambda>tz. Some 12) (DEFAULT_SETTINGS\<lparr>nightmodeEnabled := True\<rparr>)
   \<and> isNightMode (\<lambda>tz. Some 3) (DEFAULT_SETTINGS\<lparr>nightmodeEnabled := True, nightmodeStartHour := Some 1, nightmodeEndHour := Some 5\<rparr>)
   \<and> \<not> isNightMode (\<lambda>tz. Some 12) (DEFAULT_SETTINGS\<lparr>nightmodeEnabled := True, nightmodeStartHour := Some 1, nightmodeEndHour := Some 5\<rparr>)"
  by (simp add: isNightMode_def num_or_def DEFAULT_SETTINGS_def Let_def str_or_def)

subsection \<open>The sliding-window counter\<close>

lemma getSettings_tracker:
  "getSettings (sys\<lparr>actionTracker := t\<rparr>) g =
     (fst (getSettings sys g), (snd (getSettings sys g))\<lparr>actionTracker := t\<rparr>)"
  by (simp add: getSettings_def Let_def split: option.splits prod.splits sum.splits)

lemma getSettings_again:
  "fst (getSettings (snd (getSettings sys g)) g) = fst (getSettings sys g)"
  by (auto simp: getSettings_def Let_def getAntiNukeSettings_def createDefaultAntiNukeSettings_def
      split: option.splits prod.splits sum.splits if_splits)

lemma getSettings_tracker_same: "actionTracker (snd (getSettings sys g)) = actionTracker sys"
  by (simp add: getSettings_def Let_def split: option.splits prod.splits sum.splits)

lemma within_window_keeps:
  "within_window w (xs @ now # rest) \<Longrightarrow> filter (\<lambda>t. now - t < w) xs = xs"
  by (induction xs) (auto simp: list_all_iff)

lemma trackAction_unfold:
  assumes "timeWindow (fst (getSettings sys g)) = Some w"
  shows "trackAction sys now g u a =
     (Suc (length (filter (\<lambda>t. now - t < w) (stored sys g u a))),
      (snd (getSettings sys g))\<lparr>actionTracker :=
         (actionTracker (snd (getSettings sys g)))(tracker_key g u a \<mapsto>
            filter (\<lambda>t. now - t < w) (stored sys g u a) @ [now])\<rparr>)"
  using assms
  by (simp add: trackAction_def Let_def stored_def js_lt_def case_prod_beta getSettings_tracker_same)

lemma trackAction_window_kept:
  assumes "timeWindow (fst (getSettings sys g)) = Some w"
  shows "timeWindow (fst (getSettings (snd (trackAction sys now g u a)) g)) = Some w"
  using assms by (simp add: trackAction_unfold getSettings_tracker getSettings_again)

lemma trackAction_stored:
  assumes "timeWindow (fst (getSettings sys g)) = Some w"
  shows "stored (snd (trackAction sys now g u a)) g u a =
           filter (\<lambda>t. now - t < w) (stored sys g u a) @ [now]"
  using assms by (simp add: trackAction_unfold stored_def)

lemma trackActions_counts_gen:
  assumes "timeWindow (fst (getSettings sys g)) = Some w"
    and "within_window w (stored sys g u a @ ts)"
  shows "fst (trackActions sys ts g u a) =
           [Suc (length (stored sys g u a)) ..< Suc (length (stored sys g u a) + length ts)]"
  using assms
proof (induction ts arbitrary: sys)
  case Nil
  then show ?case by simp
next
  case (Cons now rest)
  let ?xs = "stored sys g u a"
  let ?sys1 = "snd (trackAction sys now g u a)"
  have ww: "within_window w (?xs @ now # rest)" using Cons.prems(2) by simp
  have keep: "filter (\<lambda>t. now - t < w) ?xs = ?xs"
    using ww by (rule within_window_keeps)
  have st1: "stored ?sys1 g u a = ?xs @ [now]"
    using trackAction_stored[OF Cons.prems(1)] keep by simp
  have c1: "fst (trackAction sys now g u a) = Suc (length ?xs)"
    using trackAction_unfold[OF Cons.prems(1)] keep by simp
  have w1: "timeWindow (fst (getSettings ?sys1 g)) = Some w"
    by (rule trackAction_window_kept[OF Cons.prems(1)])
  have ww1: "within_window w (stored ?sys1 g u a @ rest)" using ww st1 by simp
  have ih: "fst (trackActions ?sys1 rest g u a) =
              [Suc (length (?xs @ [now])) ..< Suc (length (?xs @ [now]) + length rest)]"
    using Cons.IH[OF w1 ww1] st1 by simp
  have up: "[Suc (length ?xs) ..< Suc (length ?xs + length (now # rest))]
            = Suc (length ?xs) # [Suc (length (?xs @ [now])) ..< Suc (length (?xs @ [now]) + length rest)]"
    using upt_conv_Cons[of "Suc (length ?xs)" "Suc (length ?xs + length (now # rest))"] by simp
  have "fst (trackActions sys (now # rest) g u a)
        = fst (trackAction sys now g u a) # fst (trackActions ?sys1 rest g u a)"
    by (simp add: case_prod_beta Let_def)
  then show ?case using c1 ih up by simp
qed

lemma trackActions_state:
  assumes "timeWindow (fst (getSettings sys g)) = Some w"
    and "within_window w (stored sys g u a @ ts)"
  shows "stored (snd (trackActions sys ts g u a)) g u a = stored sys g u a @ ts
       \<and> timeWindow (fst (getSettings (snd (trackActions sys ts g u a)) g)) = Some w"
  using assms
proof (induction ts arbitrary: sys)
  case Nil
  then show ?case by simp
next
  case (Cons now rest)
  let ?xs = "stored sys g u a"
  let ?sys1 = "snd (trackAction sys now g u a)"
  have ww: "within_window w (?xs @ now # rest)" using Cons.prems(2) by simp
  have keep: "filter (\<lambda>t. now - t < w) ?xs = ?xs"
    using ww by (rule within_window_keeps)
  have st1: "stored ?sys1 g u a = ?xs @ [now]"
    using trackAction_stored[OF Cons.prems(1)] keep by simp
  have w1: "timeWindow (fst (getSettings ?sys1 g)) = Some w"
    by (rule trackAction_window_kept[OF Cons.prems(1)])
  have ww1: "within_window w (stored ?sys1 g u a @ rest)" using ww st1 by simp
  have sn: "snd (trackActions sys (now # rest) g u a) = snd (trackActions ?sys1 rest g u a)"
    by (simp add: case_prod_beta Let_def)
  show ?case using Cons.IH[OF w1 ww1] st1 sn by simp
qed

text \<open>
  Under a policy that has a window \<open>w\<close>, a call of \<open>trackAction\<close> at clock reading
  \<open>now\<close> keeps exactly the stored timestamps later than \<open>now - w\<close>, appends \<open>now\<close>,
  stores the result under the key and returns its length; no timestamp at or before
  \<open>now - w\<close> survives among the kept ones. Starting from a key with nothing stored,
  \<open>limit - 1\<close> calls whose clock readings lie in one window return the counts
  \<open>1, ..., limit - 1\<close>, all below \<open>limit\<close>, and one more call in the same window returns
  exactly \<open>limit\<close>. The built-in default policy, which the engine uses when the store
  cannot be reached, has such a window.
\<close>

lemma trackAction_with_window:
  assumes "timeWindow (fst (getSettings sys g)) = Some w"
  shows "fst (trackAction sys now g u a) = Suc (length (filter (\<lambda>t. now - w < t) (stored sys g u a)))
       \<and> stored (snd (trackAction sys now g u a)) g u a
           = filter (\<lambda>t. now - w < t) (stored sys g u a) @ [now]
       \<and> (\<forall>t0. t0 \<le> now - w \<longrightarrow> t0 \<notin> set (butlast (stored (snd (trackAction sys now g u a)) g u a)))
       \<and> (stored sys g u a = [] \<and> within_window w (ts @ [t]) \<and> Suc (length ts) = limit \<longrightarrow>
            fst (trackActions sys ts g u a) = [1..<limit]
            \<and> (\<forall>c \<in> set (fst (trackActions sys ts g u a)). c < limit)
            \<and> fst (trackAction (snd (trackActions sys ts g u a)) t g u a) = limit)"
proof -
  have eq: "(\<lambda>t. now - w < t) = (\<lambda>t. now - t < w)" by (rule ext) arith
  have A: "fst (trackAction sys now g u a) = Suc (length (filter (\<lambda>t. now - w < t) (stored sys g u a)))"
    using trackAction_unfold[OF assms] by (simp add: eq)
  have B: "stored (snd (trackAction sys now g u a)) g u a
           = filter (\<lambda>t. now - w < t) (stored sys g u a) @ [now]"
    using trackAction_stored[OF assms] by (simp add: eq)
  have E: "\<forall>t0. t0 \<le> now - w \<longrightarrow> t0 \<notin> set (butlast (stored (snd (trackAction sys now g u a)) g u a))"
    by (simp add: B)
  have D: "fst (trackActions sys ts g u a) = [1..<limit]
            \<and> (\<forall>c \<in> set (fst (trackActions sys ts g u a)). c < limit)
            \<and> fst (trackAction (snd (trackActions sys ts g u a)) t g u a) = limit"
    if h: "stored sys g u a = []" "within_window w (ts @ [t])" "Suc (length ts) = limit"
  proof -
    have wts: "within_window w ts" using h(2) by (induction ts) auto
    have c: "fst (trackActions sys ts g u a) = [1..<limit]"
      using trackActions_counts_gen[OF assms, of u a ts] wts h(1,3) by simp
    let ?sys' = "snd (trackActions sys ts g u a)"
    have st: "stored ?sys' g u a = ts" and w': "timeWindow (fst (getSettings ?sys' g)) = Some w"
      using trackActions_state[OF assms, of u a ts] wts h(1) by simp_all
    have keep: "filter (\<lambda>x. t - x < w) ts = ts" using h(2) by (rule within_window_keeps)
    have l: "fst (trackAction ?sys' t g u a) = limit"
      using trackAction_unfold[OF w', of t u a] st keep h(3) by simp
    show ?thesis using c l by simp
  qed
  show ?thesis using A B E D by blast
qed

lemma trackAction_default_policy_example:
  "timeWindow (fst (getSettings offline_system ''1'')) = Some 10000
   \<and> fst (trackActions offline_system [1000, 1001] ''1'' ''2'' ''CHANNEL_DELETE'') = [1, 2]
   \<and> fst (trackAction (snd (trackActions offline_system [1000, 1001] ''1'' ''2'' ''CHANNEL_DELETE''))
            1002 ''1'' ''2'' ''CHANNEL_DELETE'') = 3"
proof -
  have h: "timeWindow (fst (getSettings offline_system ''1'')) = Some 10000"
    by (simp add: getSettings_def offline_system_def fresh_system_def empty_store_def
        getAntiNukeSettings_def DEFAULT_SETTINGS_def)
  have s: "stored offline_system ''1'' ''2'' ''CHANNEL_DELETE'' = []"
    by (simp add: stored_def offline_system_def fresh_system_def)
  have w: "within_window 10000 ([1000, 1001] @ [1002])" by simp
  have u: "[1..<3] = [1, 2::nat]" by (simp add: upt_rec)
  show ?thesis
    using h s w u trackAction_with_window[OF h, of 0 "''2''" "''CHANNEL_DELETE''" "[1000, 1001]" 1002 3]
    by simp
qed

text \<open>
  A policy that comes from the store has no window. The row that the store returns names
  its columns \<open>time_window\<close>, \<open>channel_delete_limit\<close>, ..., and the engine reads
  \<open>settings.timeWindow\<close>: the comparison \<open>now - time < undefined\<close> is false for every
  stored timestamp, so each call keeps nothing and returns 1.
\<close>

lemma stored_policy_has_no_window:
  assumes "settings_cache sys g = None" and "antinuke_rows (store sys) g = None"
    and "\<not> unreachable (store sys)" and "\<not> select_error (store sys)" and "\<not> insert_error (store sys)"
  shows "fst (getSettings sys g) = settings_of (default_antinuke_row g)"
    and "timeWindow (fst (getSettings sys g)) = None"
  using assms
  by (simp_all add: getSettings_def getAntiNukeSettings_def createDefaultAntiNukeSettings_def
      settings_of_def default_antinuke_row_def property_def number_def Let_def)

lemma trackAction_without_window:
  assumes "timeWindow (fst (getSettings sys g)) = None"
  shows "fst (trackAction sys now g u a) = 1"
    and "stored (snd (trackAction sys now g u a)) g u a = [now]"
    and "timeWindow (fst (getSettings (snd (trackAction sys now g u a)) g)) = None"
  using assms
  by (simp_all add: trackAction_def Let_def stored_def js_lt_def case_prod_beta
      getSettings_tracker getSettings_again)

lemma trackActions_without_window:
  assumes "timeWindow (fst (getSettings sys g)) = None"
  shows "fst (trackActions sys ts g u a) = replicate (length ts) 1"
  using assms
proof (induction ts arbitrary: sys)
  case Nil
  then show ?case by simp
next
  case (Cons now rest)
  have "fst (trackActions sys (now # rest) g u a)
        = fst (trackAction sys now g u a) # fst (trackActions (snd (trackAction sys now g u a)) rest g u a)"
    by (simp add: case_prod_beta Let_def)
  then show ?case
    using trackAction_without_window(1,3)[OF Cons.prems] Cons.IH by simp
qed

text \<open>
  Claim C1, at an input where the code departs from it. A guild whose policy the engine
  has loaded from the store: the row has the window 10000 in its column \<open>time_window\<close>.
  Three calls for one key at the clock readings 1000, 1001 and 1002 lie in one window, so
  by the claim they return 1, 2 and 3 and the third reaches the limit 3. \<open>trackAction\<close>
  returns 1 each time and keeps the last timestamp only.
\<close>

theorem trackAction_stored_policy_counts_one:
  "fst (getSettings fresh_system ''1'') = settings_of (default_antinuke_row ''1'')
   \<and> number (property (default_antinuke_row ''1'') ''time_window'') = Some 10000
   \<and> timeWindow (fst (getSettings fresh_system ''1'')) = None
   \<and> sliding_window_spec 10000 [] [1000, 1001, 1002] = [1, 2, 3]
   \<and> fst (trackActions fresh_system [1000, 1001, 1002] ''1'' ''2'' ''CHANNEL_DELETE'') = [1, 1, 1]
   \<and> stored (snd (trackActions fresh_system [1000, 1001, 1002] ''1'' ''2'' ''CHANNEL_DELETE''))
         ''1'' ''2'' ''CHANNEL_DELETE'' = [1002]"
  by code_simp

subsection \<open>The policy cache and explicit updates\<close>

text \<open>
  Claim C4 as stated fails: for a guild whose policy is cached, disabling the protection
  in the store succeeds and \<open>getSettings\<close> still returns the enabled policy.
\<close>

theorem update_leaves_cached_policy_counterexample:
  "settings_cache cached_system ''1'' = Some (settings_of (default_antinuke_row ''1''))
   \<and> fst (updateAntiNukeSettings (store cached_system) ''1'' disable)
       = Inr (assign (default_antinuke_row ''1'') disable)
   \<and> \<not> enabled (settings_of (assign (default_antinuke_row ''1'') disable))
   \<and> fst (getSettings (cached_system\<lparr>store := snd (updateAntiNukeSettings (store cached_system) ''1'' disable)\<rparr>) ''1'')
       \<noteq> settings_of (assign (default_antinuke_row ''1'') disable)
   \<and> enabled (fst (getSettings (cached_system\<lparr>store := snd (updateAntiNukeSettings (store cached_system) ''1'' disable)\<rparr>) ''1''))"
  by code_simp

text \<open>
  Claim C4, amended. After \<open>updateAntiNukeSettings\<close> has completed, \<open>getSettings\<close> returns
  the cached policy, unchanged, for a guild that is in the cache; for a guild that is not
  yet cached (and a store whose reads succeed) it returns the policy read from the updated
  row and caches it.
\<close>

theorem getSettings_after_update:
  assumes "updateAntiNukeSettings (store sys) g upd = (Inr row, db1)"
  shows "(\<forall>c. settings_cache sys g = Some c \<longrightarrow> getSettings (sys\<lparr>store := db1\<rparr>) g = (c, sys\<lparr>store := db1\<rparr>))
       \<and> (settings_cache sys g = None \<and> \<not> select_error (store sys) \<longrightarrow>
            getSettings (sys\<lparr>store := db1\<rparr>) g
              = (settings_of row,
                 sys\<lparr>settings_cache := (settings_cache sys)(g \<mapsto> settings_of row), store := db1\<rparr>))"
  using assms
  by (auto simp: updateAntiNukeSettings_def getAntiNukeSettings_def createDefaultAntiNukeSettings_def
      getSettings_def Let_def split: if_splits option.splits prod.splits sum.splits)

theorem getSettings_after_update_witness:
  "fst (updateAntiNukeSettings (store fresh_system) ''1'' disable)
     = Inr (assign (default_antinuke_row ''1'') disable)
   \<and> settings_cache fresh_system ''1'' = None \<and> \<not> select_error (store fresh_system)
   \<and> fst (getSettings (fresh_system\<lparr>store := snd (updateAntiNukeSettings (store fresh_system) ''1'' disable)\<rparr>) ''1'')
       = settings_of (assign (default_antinuke_row ''1'') disable)
   \<and> \<not> enabled (fst (getSettings (fresh_system\<lparr>store := snd (updateAntiNukeSettings (store fresh_system) ''1'' disable)\<rparr>) ''1''))
   \<and> fst (updateAntiNukeSettings (store cached_system) ''1'' disable)
       = Inr (assign (default_antinuke_row ''1'') disable)
   \<and> settings_cache cached_system ''1'' = Some (settings_of (default_antinuke_row ''1''))
   \<and> fst (getSettings (cached_system\<lparr>store := snd (updateAntiNukeSettings (store cached_system) ''1'' disable)\<rparr>) ''1'')
       = settings_of (default_antinuke_row ''1'')
   \<and> enabled (fst (getSettings (cached_system\<lparr>store := snd (updateAntiNukeSettings (store cached_system) ''1'' disable)\<rparr>) ''1''))"
proof -
  have fh: "fst (updateAntiNukeSettings (store fresh_system) ''1'' disable)
     = Inr (assign (default_antinuke_row ''1'') disable)"
    by code_simp
  have h: "updateAntiNukeSettings (store fresh_system) ''1'' disable
     = (Inr (assign (default_antinuke_row ''1'') disable),
        snd (updateAntiNukeSettings (store fresh_system) ''1'' disable))"
    using fh by (simp add: prod_eq_iff)
  have c: "settings_cache fresh_system ''1'' = None" "\<not> select_error (store fresh_system)"
    by (simp_all add: fresh_system_def empty_store_def)
  have fu: "fst (updateAntiNukeSettings (store cached_system) ''1'' disable)
              = Inr (assign (default_antinuke_row ''1'') disable)"
    by code_simp
  have u: "updateAntiNukeSettings (store cached_system) ''1'' disable
             = (Inr (assign (default_antinuke_row ''1'') disable),
                snd (updateAntiNukeSettings (store cached_system) ''1'' disable))"
    using fu by (simp add: prod_eq_iff)
  have k: "settings_cache cached_system ''1'' = Some (settings_of (default_antinuke_row ''1''))"
    by code_simp
  have e: "\<not> enabled (settings_of (assign (default_antinuke_row ''1'') disable))"
    "enabled (settings_of (default_antinuke_row ''1''))"
    by code_simp+
  note fresh = getSettings_after_update[OF h]
  note cached = getSettings_after_update[OF u]
  show ?thesis
    using fh c fu k e fresh cached by simp
qed

subsection \<open>Handlers and the audit table\<close>

lemma andThen_alt:
  "andThen a k s = (case fst (a s) of Inl e \<Rightarrow> (Inl e, snd (a s)) | Inr x \<Rightarrow> k x (snd (a s)))"
  by (cases "a s") (simp add: andThen_def split: sum.splits)

lemma tryCatch_alt:
  "tryCatch a h s = (case fst (a s) of Inl e \<Rightarrow> h e (snd (a s)) | Inr x \<Rightarrow> (Inr x, snd (a s)))"
  by (cases "a s") (simp add: tryCatch_def split: sum.splits)

lemma blind_ret: "audit_blind (ret v)"
  by (simp add: audit_blind_def ret_def)

lemma blind_throw: "audit_blind (throw e)"
  by (simp add: audit_blind_def throw_def)

lemma blind_gets_guild: "audit_blind (gets guild)"
  and blind_gets_local_hour: "audit_blind (gets local_hour)"
  and blind_gets_audit_first: "audit_blind (gets audit_first)"
  by (simp_all add: audit_blind_def gets_def)

lemma blind_andThen:
  assumes "audit_blind a" and "\<And>v. audit_blind (k v)"
  shows "audit_blind (andThen a k)"
  unfolding audit_blind_def
proof (intro allI)
  fix x wd
  have a: "a (wd\<lparr>audit := x\<rparr>) = (fst (a wd), (snd (a wd))\<lparr>audit := x\<rparr>)"
    using assms(1) by (simp add: audit_blind_def)
  show "andThen a k (wd\<lparr>audit := x\<rparr>) = (fst (andThen a k wd), (snd (andThen a k wd))\<lparr>audit := x\<rparr>)"
  proof (cases "fst (a wd)")
    case (Inl e)
    then show ?thesis using a by (simp add: andThen_alt)
  next
    case (Inr v)
    have "k v ((snd (a wd))\<lparr>audit := x\<rparr>) = (fst (k v (snd (a wd))), (snd (k v (snd (a wd))))\<lparr>audit := x\<rparr>)"
      using assms(2)[of v] by (simp add: audit_blind_def)
    then show ?thesis using a Inr by (simp add: andThen_alt)
  qed
qed

lemma blind_tryCatch:
  assumes "audit_blind a" and "\<And>e. audit_blind (h e)"
  shows "audit_blind (tryCatch a h)"
  unfolding audit_blind_def
proof (intro allI)
  fix x wd
  have a: "a (wd\<lparr>audit := x\<rparr>) = (fst (a wd), (snd (a wd))\<lparr>audit := x\<rparr>)"
    using assms(1) by (simp add: audit_blind_def)
  show "tryCatch a h (wd\<lparr>audit := x\<rparr>) = (fst (tryCatch a h wd), (snd (tryCatch a h wd))\<lparr>audit := x\<rparr>)"
  proof (cases "fst (a wd)")
    case (Inr v)
    then show ?thesis using a by (simp add: tryCatch_alt)
  next
    case (Inl e)
    have "h e ((snd (a wd))\<lparr>audit := x\<rparr>) = (fst (h e (snd (a wd))), (snd (h e (snd (a wd))))\<lparr>audit := x\<rparr>)"
      using assms(2)[of e] by (simp add: audit_blind_def)
    then show ?thesis using a Inl by (simp add: tryCatch_alt)
  qed
qed

lemma blind_forEach:
  assumes "\<And>v. audit_blind (f v)"
  shows "audit_blind (forEach xs f)"
  by (induction xs) (simp_all add: blind_ret blind_andThen assms)

lemma effect_audit: "effect c (wd\<lparr>audit := x\<rparr>) = (effect c wd)\<lparr>audit := x\<rparr>"
  by (cases c) simp_all

lemma blind_request: "audit_blind (request c)"
  by (simp add: audit_blind_def request_def effect_audit)

lemma blind_channels_create: "audit_blind (channels_create t)"
  using blind_request[of "ChannelsCreate t"]
  by (simp add: audit_blind_def channels_create_def split: prod.splits sum.splits)

lemma blind_members_fetch: "audit_blind (members_fetch u)"
  using blind_request[of "MembersFetch u"]
  by (simp add: audit_blind_def members_fetch_def request_def split: prod.splits sum.splits)

lemma blind_getSettings_act: "audit_blind (getSettings_act g)"
  by (simp add: audit_blind_def getSettings_act_def case_prod_beta)

lemma blind_trackAction_act: "audit_blind (trackAction_act g u a)"
  by (simp add: audit_blind_def trackAction_act_def case_prod_beta)

lemma blind_getTrustedUsers_act: "audit_blind (getTrustedUsers_act g)"
  by (simp add: audit_blind_def getTrustedUsers_act_def)

lemmas blind_basic = blind_ret blind_throw blind_gets_guild blind_gets_local_hour
  blind_gets_audit_first blind_andThen blind_tryCatch blind_forEach blind_request
  blind_channels_create blind_members_fetch blind_getSettings_act blind_trackAction_act
  blind_getTrustedUsers_act

lemma blind_isWhitelisted: "audit_blind (isWhitelisted g u)"
  unfolding isWhitelisted_def
  by (intro blind_basic) (simp add: blind_basic split: option.splits)

lemma blind_notifyOwner_act: "audit_blind notifyOwner_act"
  unfolding notifyOwner_act_def by (intro blind_basic)

lemma blind_initiateServerLockdown: "audit_blind initiateServerLockdown"
  unfolding initiateServerLockdown_def Let_def by (intro blind_basic)

lemma blind_restoreChannel: "audit_blind (restoreChannel ch)"
  unfolding restoreChannel_def by (intro blind_basic)

lemma blind_punishUser: "audit_blind (punishUser u)"
  unfolding punishUser_def Let_def
  by (intro blind_basic)
     (auto intro!: blind_basic blind_notifyOwner_act blind_initiateServerLockdown split: option.splits)

lemma swallow_of_blind: "audit_blind a \<Longrightarrow> audit_swallow a"
  by (simp add: audit_blind_def audit_swallow_def)

lemma swallow_log: "audit_swallow (tryCatch (logSecurityEvent_act ev) (\<lambda>dbError. ret ()))"
  by (simp add: audit_swallow_def tryCatch_def logSecurityEvent_act_def logSecurityEvent_def ret_def)

lemma swallow_andThen:
  assumes "audit_blind a" and "\<And>v. audit_swallow (k v)"
  shows "audit_swallow (andThen a k)"
  unfolding audit_swallow_def
proof (intro allI impI)
  fix x :: audit_store and wd :: world
  assume f: "security_insert_error x"
  let ?y = "x\<lparr>security_insert_error := False\<rparr>"
  have a: "a (wd\<lparr>audit := x\<rparr>) = (fst (a wd), (snd (a wd))\<lparr>audit := x\<rparr>)"
    and a': "a (wd\<lparr>audit := ?y\<rparr>) = (fst (a wd), (snd (a wd))\<lparr>audit := ?y\<rparr>)"
    using assms(1) by (simp_all add: audit_blind_def)
  show "andThen a k (wd\<lparr>audit := x\<rparr>) =
          (fst (andThen a k (wd\<lparr>audit := ?y\<rparr>)), (snd (andThen a k (wd\<lparr>audit := ?y\<rparr>)))\<lparr>audit := x\<rparr>)"
  proof (cases "fst (a wd)")
    case (Inl e)
    then show ?thesis using a a' by (simp add: andThen_alt)
  next
    case (Inr v)
    have "k v ((snd (a wd))\<lparr>audit := x\<rparr>) =
            (fst (k v ((snd (a wd))\<lparr>audit := ?y\<rparr>)), (snd (k v ((snd (a wd))\<lparr>audit := ?y\<rparr>)))\<lparr>audit := x\<rparr>)"
      using assms(2)[of v] f by (simp add: audit_swallow_def)
    then show ?thesis using a a' Inr by (simp add: andThen_alt)
  qed
qed

lemma swallow_tryCatch:
  assumes "audit_swallow a" and "\<And>e. audit_blind (h e)"
  shows "audit_swallow (tryCatch a h)"
  unfolding audit_swallow_def
proof (intro allI impI)
  fix x :: audit_store and wd :: world
  assume f: "security_insert_error x"
  let ?y = "x\<lparr>security_insert_error := False\<rparr>"
  let ?r = "a (wd\<lparr>audit := ?y\<rparr>)"
  have a: "a (wd\<lparr>audit := x\<rparr>) = (fst ?r, (snd ?r)\<lparr>audit := x\<rparr>)"
    using assms(1) f by (simp add: audit_swallow_def)
  show "tryCatch a h (wd\<lparr>audit := x\<rparr>) =
          (fst (tryCatch a h (wd\<lparr>audit := ?y\<rparr>)), (snd (tryCatch a h (wd\<lparr>audit := ?y\<rparr>)))\<lparr>audit := x\<rparr>)"
  proof (cases "fst ?r")
    case (Inr v)
    then show ?thesis using a by (simp add: tryCatch_alt)
  next
    case (Inl e)
    have "h e ((snd ?r)\<lparr>audit := x\<rparr>) = (fst (h e (snd ?r)), (snd (h e (snd ?r)))\<lparr>audit := x\<rparr>)"
      using assms(2)[of e] by (simp add: audit_blind_def)
    then show ?thesis using a Inl by (simp add: tryCatch_alt)
  qed
qed

lemma swallow_handleChannelDelete: "audit_swallow (handleChannelDelete ch)"
  unfolding handleChannelDelete_def Let_def
  by (auto intro!: swallow_andThen swallow_tryCatch swallow_log blind_basic blind_isWhitelisted
        blind_punishUser blind_restoreChannel swallow_of_blind[OF blind_ret]
      split: option.splits)

lemma tryCatch_ret_total: "fst (tryCatch a (\<lambda>e. ret ()) wd) = Inr ()"
  by (cases "a wd") (simp add: tryCatch_def ret_def split: sum.splits)

lemma handleChannelDelete_total: "fst (handleChannelDelete ch wd) = Inr ()"
  by (simp add: handleChannelDelete_def andThen_alt gets_def getSettings_act_def ret_def
      tryCatch_ret_total Let_def case_prod_beta)

lemma blind_gets_webhooks_of: "audit_blind (gets webhooks_of)"
  by (simp add: audit_blind_def gets_def)

lemma blind_restoreRole: "audit_blind (restoreRole r)"
  unfolding restoreRole_def by (intro blind_basic)

lemmas swallow_intros = swallow_andThen swallow_tryCatch swallow_log blind_basic blind_isWhitelisted
  blind_punishUser blind_restoreChannel blind_restoreRole blind_gets_webhooks_of
  swallow_of_blind[OF blind_ret] swallow_of_blind[OF blind_throw]

lemma swallow_handleChannelCreate: "audit_swallow (handleChannelCreate ch)"
  unfolding handleChannelCreate_def Let_def
  by (auto intro!: swallow_intros split: option.splits)

lemma swallow_handleRoleDelete: "audit_swallow (handleRoleDelete r)"
  unfolding handleRoleDelete_def Let_def
  by (auto intro!: swallow_intros split: option.splits)

lemma swallow_handleRoleCreate: "audit_swallow (handleRoleCreate r)"
  unfolding handleRoleCreate_def Let_def
  by (auto intro!: swallow_intros split: option.splits)

lemma swallow_handleBan: "audit_swallow (handleBan i t)"
  unfolding handleBan_def Let_def
  by (auto intro!: swallow_intros split: option.splits)

lemma swallow_handleMemberRemove: "audit_swallow (handleMemberRemove i t)"
  unfolding handleMemberRemove_def Let_def
  by (auto intro!: swallow_intros split: option.splits)

lemma swallow_handleWebhookUpdate: "audit_swallow (handleWebhookUpdate ch)"
  unfolding handleWebhookUpdate_def Let_def
  by (auto intro!: swallow_intros split: option.splits)

lemma swallow_handleRoleUpdate: "audit_swallow (handleRoleUpdate r r')"
  unfolding handleRoleUpdate_def Let_def
  by (auto intro!: swallow_intros split: option.splits)

lemma swallow_handleGuildUpdate: "audit_swallow (handleGuildUpdate i i')"
  unfolding handleGuildUpdate_def Let_def
  by (auto intro!: swallow_intros split: option.splits)

lemma swallow_handleBotAdd: "audit_swallow (handleBotAdd b)"
  unfolding handleBotAdd_def Let_def
  by (auto intro!: swallow_intros split: option.splits)

lemma swallow_listener: "audit_swallow (listener ev)"
  by (cases ev)
     (simp_all add: swallow_handleChannelDelete swallow_handleChannelCreate swallow_handleRoleDelete
        swallow_handleRoleCreate swallow_handleBan swallow_handleMemberRemove
        swallow_handleWebhookUpdate swallow_handleRoleUpdate swallow_handleGuildUpdate
        swallow_handleBotAdd swallow_of_blind[OF blind_ret])

lemma andThen_total:
  assumes "\<And>x s1. fst (k x s1) = Inr ()"
  shows "fst (andThen (gets f) k st) = Inr ()" and "fst (andThen (getSettings_act g) k st) = Inr ()"
  using assms by (simp_all add: andThen_alt gets_def getSettings_act_def case_prod_beta)

lemma listener_total: "fst (listener ev wd) = Inr ()"
  by (cases ev)
     (simp_all add: handleChannelDelete_total handleChannelCreate_def handleRoleDelete_def
        handleRoleCreate_def handleBan_def handleMemberRemove_def handleWebhookUpdate_def
        handleRoleUpdate_def handleGuildUpdate_def handleBotAdd_def
        andThen_alt gets_def getSettings_act_def ret_def tryCatch_ret_total Let_def case_prod_beta)

text \<open>
  Claim C6. No listener of the engine ends in an error. When the insert into the audit
  table fails, a listener ends exactly as it does when the insert works (the same
  requests to the platform with the same outcomes, the same guild, the same counters),
  except that no record is written: nothing already done is undone and the failure does
  not reach the caller.
\<close>

theorem listener_audit_failure_swallowed:
  "fst (listener ev wd) = Inr ()
   \<and> (security_insert_error (audit wd) \<longrightarrow>
        listener ev wd =
          (Inr (), (snd (listener ev (wd\<lparr>audit := (audit wd)\<lparr>security_insert_error := False\<rparr>\<rparr>)))
                     \<lparr>audit := audit wd\<rparr>))"
proof -
  have t: "\<And>w. fst (listener ev w) = Inr ()" by (rule listener_total)
  have "listener ev (wd\<lparr>audit := audit wd\<rparr>) =
          (fst (listener ev (wd\<lparr>audit := (audit wd)\<lparr>security_insert_error := False\<rparr>\<rparr>)),
           (snd (listener ev (wd\<lparr>audit := (audit wd)\<lparr>security_insert_error := False\<rparr>\<rparr>)))
             \<lparr>audit := audit wd\<rparr>)"
    if "security_insert_error (audit wd)"
    using swallow_listener[of ev] that unfolding audit_swallow_def by blast
  then show ?thesis using t by simp
qed

lemma demo_world_run:
  "trace (snd (handleChannelDelete rules_channel demo_world)) =
      [Done (FetchAuditLogs ''ChannelDelete''), Done (MembersFetch ''200''),
       Done (RolesRemove ''200'' ''900''), Done (MemberBan ''200''), Done FetchOwner, Done OwnerSend,
       Done (OverwritesEdit ''10'' (Some False)),
       Done (ChannelsCreate \<lparr> channel_id = [], channel_name = server_lockdown_name,
               has_guild = True, isTextBased = True, everyone_SendMessages = None \<rparr>),
       Done (ChannelSend ''nnnnnnnn''),
       Done (ChannelsCreate rules_channel)]"
  by code_simp

theorem listener_audit_failure_swallowed_witness:
  "security_insert_error (audit failing_audit_world)
   \<and> fst (listener (ChannelDeleteEvent rules_channel) failing_audit_world) = Inr ()
   \<and> trace (snd (listener (ChannelDeleteEvent rules_channel) failing_audit_world)) =
      [Done (FetchAuditLogs ''ChannelDelete''), Done (MembersFetch ''200''),
       Done (RolesRemove ''200'' ''900''), Done (MemberBan ''200''), Done FetchOwner, Done OwnerSend,
       Done (OverwritesEdit ''10'' (Some False)),
       Done (ChannelsCreate \<lparr> channel_id = [], channel_name = server_lockdown_name,
               has_guild = True, isTextBased = True, everyone_SendMessages = None \<rparr>),
       Done (ChannelSend ''nnnnnnnn''),
       Done (ChannelsCreate rules_channel)]
   \<and> security_events (audit (snd (listener (ChannelDeleteEvent rules_channel) failing_audit_world))) = []"
proof -
  have f: "security_insert_error (audit failing_audit_world)"
    and a: "audit failing_audit_world = \<lparr> security_events = [], security_insert_error = True \<rparr>"
    by (simp_all add: failing_audit_world_def)
  have w: "failing_audit_world\<lparr>audit := (audit failing_audit_world)\<lparr>security_insert_error := False\<rparr>\<rparr>
           = demo_world"
    by (simp add: failing_audit_world_def demo_world_def)
  show ?thesis
    using listener_audit_failure_swallowed[of "ChannelDeleteEvent rules_channel" failing_audit_world]
      f a w demo_world_run
    by simp
qed

subsection \<open>Punishment and the guild owner\<close>

text \<open>
  Claim C3. When the member that \<open>punishUser\<close> resolves is the guild owner, the function
  returns without an error and the only request it has sent is the fetch of the member:
  no role removal, ban, kick or role strip, no message to the owner, no lockdown request;
  the guild, the audit table and the counters are as before.
\<close>

theorem punishUser_owner_untouched:
  assumes "members (guild wd) userId = Some m" and "member_id m = ownerId (guild wd)"
  shows "fst (punishUser userId wd) = Inr ()
       \<and> trace (snd (punishUser userId wd)) =
           trace wd @ [if rejects wd (trace wd) (MembersFetch userId)
                       then Failed (MembersFetch userId) else Done (MembersFetch userId)]
       \<and> guild (snd (punishUser userId wd)) = guild wd
       \<and> audit (snd (punishUser userId wd)) = audit wd
       \<and> actionTracker (engine (snd (punishUser userId wd))) = actionTracker (engine wd)"
  using assms
  by (simp add: punishUser_def andThen_def gets_def getSettings_act_def tryCatch_def
      members_fetch_def request_def ret_def Let_def case_prod_beta getSettings_tracker_same)

theorem punishUser_owner_untouched_witness:
  "members (guild demo_world) ''100'' = Some \<lparr> member_id = ''100'', member_roles = [admin_role] \<rparr>
   \<and> ownerId (guild demo_world) = ''100''
   \<and> trace (snd (punishUser ''100'' demo_world)) = [Done (MembersFetch ''100'')]
   \<and> guild (snd (punishUser ''100'' demo_world)) = demo_guild"
proof -
  have m: "members (guild demo_world) ''100'' = Some \<lparr> member_id = ''100'', member_roles = [admin_role] \<rparr>"
    by (simp add: demo_world_def demo_guild_def)
  have o: "member_id \<lparr> member_id = ''100'', member_roles = [admin_role] \<rparr> = ownerId (guild demo_world)"
    by (simp add: demo_world_def demo_guild_def)
  have r: "\<not> rejects demo_world (trace demo_world) (MembersFetch ''100'')"
    and t: "trace demo_world = []" and g: "guild demo_world = demo_guild"
    by (simp_all add: demo_world_def)
  show ?thesis using punishUser_owner_untouched[OF m o] m o r t g by simp
qed

subsection \<open>Allow-listed actors\<close>

lemma getTrustedUsers_after_getSettings:
  "getTrustedUsers (store (snd (getSettings sys g))) g' = getTrustedUsers (store sys) g'"
  by (auto simp: getSettings_def getTrustedUsers_def getAntiNukeSettings_def
      createDefaultAntiNukeSettings_def trusted_user_object_def Let_def
      split: option.splits prod.splits sum.splits if_splits)

text \<open>
  A row that \<open>getTrustedUsers\<close> returns has the platform's id of the user under
  \<open>discord_users\<close> only, and \<open>isWhitelisted\<close> reads \<open>u.discord_user_id\<close>: the row has no
  property of that name, so no row matches and \<open>isWhitelisted\<close> is membership in the
  policy's whitelist (false when the lookup of the trusted users throws).
\<close>

lemma trusted_user_object_no_id:
  "property (trusted_user_object db t) ''discord_user_id'' = None"
  by (simp add: trusted_user_object_def property_def)

lemma getTrustedUsers_no_match:
  assumes "getTrustedUsers db g = Inr rows"
  shows "\<not> list_ex (\<lambda>u. property u ''discord_user_id'' = Some (JStr userId)) rows"
  using assms
  by (auto simp: getTrustedUsers_def list_ex_iff trusted_user_object_no_id split: if_splits)

lemma isWhitelisted_eval:
  "isWhitelisted g u wd =
     (Inr (\<not> unreachable (store (engine wd))
           \<and> (case whitelist (fst (getSettings (engine wd) g)) of
                  None \<Rightarrow> False
                | Some wl \<Rightarrow> u \<in> set wl)),
      wd\<lparr>engine := snd (getSettings (engine wd) g)\<rparr>)"
proof (cases "getTrustedUsers (store (engine wd)) g")
  case (Inl e)
  then have "unreachable (store (engine wd))"
    by (simp add: getTrustedUsers_def split: if_splits)
  then show ?thesis
    using Inl getTrustedUsers_after_getSettings[of "engine wd" g g]
    by (simp add: isWhitelisted_def tryCatch_alt andThen_alt getSettings_act_def getTrustedUsers_act_def
        ret_def throw_def case_prod_beta split: sum.splits option.splits)
next
  case (Inr rows)
  then have "\<not> unreachable (store (engine wd))"
    by (simp add: getTrustedUsers_def split: if_splits)
  then show ?thesis
    using Inr getTrustedUsers_no_match[OF Inr, of u] getTrustedUsers_after_getSettings[of "engine wd" g g]
    by (simp add: isWhitelisted_def tryCatch_alt andThen_alt getSettings_act_def getTrustedUsers_act_def
        ret_def throw_def case_prod_beta split: sum.splits option.splits)
qed

lemma unreachable_after_getSettings:
  "unreachable (store (snd (getSettings sys g))) = unreachable (store sys)"
  by (auto simp: getSettings_def getAntiNukeSettings_def createDefaultAntiNukeSettings_def Let_def
      split: option.splits prod.splits sum.splits if_splits)

lemma isWhitelisted_stable:
  "fst (isWhitelisted g u (wd\<lparr>engine := snd (getSettings (engine wd) g), trace := t\<rparr>))
     = fst (isWhitelisted g u wd)"
  by (simp add: isWhitelisted_eval unreachable_after_getSettings getSettings_again
      split: sum.splits option.splits)

lemma whitelisted_facts:
  assumes "fst (isWhitelisted (guild_id (guild wd)) ex wd) = Inr True"
  shows "fst (isWhitelisted (guild_id (guild wd)) ex
               (wd\<lparr>engine := snd (getSettings (engine wd) (guild_id (guild wd))), trace := t\<rparr>)) = Inr True"
    and "snd (isWhitelisted (guild_id (guild wd)) ex w')
           = w'\<lparr>engine := snd (getSettings (engine w') (guild_id (guild wd)))\<rparr>"
  using isWhitelisted_stable[where g = "guild_id (guild wd)" and u = ex and wd = wd and t = t] assms
  by (simp_all add: isWhitelisted_eval)

lemmas handler_unfold = andThen_alt tryCatch_alt gets_def ret_def throw_def getSettings_act_def
  request_def Let_def case_prod_beta getSettings_tracker_same only_audit_fetch_def

lemma whitelisted_handleChannelDelete:
  assumes "audit_first wd ''ChannelDelete'' = Some entry" and "executor entry = Some ex"
    and "fst (isWhitelisted (guild_id (guild wd)) ex wd) = Inr True"
  shows "only_audit_fetch ''ChannelDelete'' wd (snd (handleChannelDelete ch wd))"
  using assms(1,2) whitelisted_facts[OF assms(3)]
  by (simp add: handleChannelDelete_def handler_unfold)

lemma whitelisted_handleChannelCreate:
  assumes "audit_first wd ''ChannelCreate'' = Some entry" and "executor entry = Some ex"
    and "fst (isWhitelisted (guild_id (guild wd)) ex wd) = Inr True"
  shows "only_audit_fetch ''ChannelCreate'' wd (snd (handleChannelCreate ch wd))"
  using assms(1,2) whitelisted_facts[OF assms(3)]
  by (simp add: handleChannelCreate_def handler_unfold)

lemma whitelisted_handleRoleDelete:
  assumes "audit_first wd ''RoleDelete'' = Some entry" and "executor entry = Some ex"
    and "fst (isWhitelisted (guild_id (guild wd)) ex wd) = Inr True"
  shows "only_audit_fetch ''RoleDelete'' wd (snd (handleRoleDelete r wd))"
  using assms(1,2) whitelisted_facts[OF assms(3)]
  by (simp add: handleRoleDelete_def handler_unfold)

lemma whitelisted_handleRoleCreate:
  assumes "audit_first wd ''RoleCreate'' = Some entry" and "executor entry = Some ex"
    and "fst (isWhitelisted (guild_id (guild wd)) ex wd) = Inr True"
  shows "only_audit_fetch ''RoleCreate'' wd (snd (handleRoleCreate r wd))"
  using assms(1,2) whitelisted_facts[OF assms(3)]
  by (simp add: handleRoleCreate_def handler_unfold)

lemma whitelisted_handleBan:
  assumes "audit_first wd ''MemberBanAdd'' = Some entry" and "executor entry = Some ex"
    and "fst (isWhitelisted (guild_id (guild wd)) ex wd) = Inr True"
  shows "only_audit_fetch ''MemberBanAdd'' wd (snd (handleBan i t wd))"
  using assms(1,2) whitelisted_facts[OF assms(3)]
  by (simp add: handleBan_def handler_unfold)

lemma whitelisted_handleMemberRemove:
  assumes "audit_first wd ''MemberKick'' = Some entry" and "executor entry = Some ex"
    and "fst (isWhitelisted (guild_id (guild wd)) ex wd) = Inr True"
  shows "only_audit_fetch ''MemberKick'' wd (snd (handleMemberRemove i t wd))"
  using assms(1,2) whitelisted_facts[OF assms(3)]
  by (simp add: handleMemberRemove_def handler_unfold split: option.splits)

lemma whitelisted_handleWebhookUpdate:
  assumes "audit_first wd ''WebhookCreate'' = Some entry" and "executor entry = Some ex"
    and "fst (isWhitelisted (guild_id (guild wd)) ex wd) = Inr True"
  shows "only_audit_fetch ''WebhookCreate'' wd (snd (handleWebhookUpdate ch wd))"
  using assms(1,2) whitelisted_facts[OF assms(3)]
  by (simp add: handleWebhookUpdate_def handler_unfold)

lemma whitelisted_handleRoleUpdate:
  assumes "audit_first wd ''RoleUpdate'' = Some entry" and "executor entry = Some ex"
    and "fst (isWhitelisted (guild_id (guild wd)) ex wd) = Inr True"
  shows "only_audit_fetch ''RoleUpdate'' wd (snd (handleRoleUpdate r r' wd))"
  using assms(1,2) whitelisted_facts[OF assms(3)]
  by (simp add: handleRoleUpdate_def handler_unfold)

lemma whitelisted_handleGuildUpdate:
  assumes "audit_first wd ''GuildUpdate'' = Some entry" and "executor entry = Some ex"
    and "fst (isWhitelisted (guild_id (guild wd)) ex wd) = Inr True"
  shows "only_audit_fetch ''GuildUpdate'' wd (snd (handleGuildUpdate i i' wd))"
  using assms(1,2) whitelisted_facts[OF assms(3)]
  by (simp add: handleGuildUpdate_def handler_unfold)

lemma whitelisted_handleBotAdd:
  assumes "audit_first wd ''BotAdd'' = Some entry" and "executor entry = Some ex"
    and "fst (isWhitelisted (guild_id (guild wd)) ex wd) = Inr True"
  shows "only_audit_fetch ''BotAdd'' wd (snd (handleBotAdd b wd))"
  using assms(1,2) whitelisted_facts[OF assms(3)]
  by (simp add: handleBotAdd_def handler_unfold)

lemma whitelisted_listener:
  assumes "audit_first wd (audit_type ev) = Some entry" and "executor entry = Some ex"
    and "fst (isWhitelisted (guild_id (guild wd)) ex wd) = Inr True"
  shows "only_audit_fetch (audit_type ev) wd (snd (listener ev wd))"
proof (cases ev)
  case (GuildMemberAddEvent is_bot m)
  then show ?thesis
    using assms whitelisted_handleBotAdd[of wd entry ex m]
    by (cases is_bot) (simp_all add: only_audit_fetch_def ret_def)
qed (use assms whitelisted_handleChannelDelete whitelisted_handleChannelCreate
      whitelisted_handleRoleDelete whitelisted_handleRoleCreate whitelisted_handleBan
      whitelisted_handleMemberRemove whitelisted_handleWebhookUpdate whitelisted_handleRoleUpdate
      whitelisted_handleGuildUpdate in simp_all)

text \<open>
  Claim C5, amended. When the executor that a listener finds in the audit log is on the
  policy's whitelist and the lookup of the trusted users does not throw, the listener
  ends without an error, counts nothing, sends no request other than the fetch of the
  audit log, changes nothing in the guild, and writes no audit record.
\<close>

theorem listener_whitelisted:
  assumes "audit_first wd (audit_type ev) = Some entry" and "executor entry = Some ex"
    and "whitelist (fst (getSettings (engine wd) (guild_id (guild wd)))) = Some wl"
    and "ex \<in> set wl"
    and "\<not> unreachable (store (engine wd))"
  shows "fst (listener ev wd) = Inr ()
       \<and> actionTracker (engine (snd (listener ev wd))) = actionTracker (engine wd)
       \<and> guild (snd (listener ev wd)) = guild wd
       \<and> audit (snd (listener ev wd)) = audit wd
       \<and> (trace (snd (listener ev wd)) = trace wd
          \<or> trace (snd (listener ev wd)) = trace wd @ [Done (FetchAuditLogs (audit_type ev))]
          \<or> trace (snd (listener ev wd)) = trace wd @ [Failed (FetchAuditLogs (audit_type ev))])"
proof -
  have w: "fst (isWhitelisted (guild_id (guild wd)) ex wd) = Inr True"
    using assms(3,4,5) by (simp add: isWhitelisted_eval)
  show ?thesis
    using whitelisted_listener[OF assms(1,2) w] listener_total[of ev wd]
    by (simp add: only_audit_fetch_def)
qed

text \<open>
  Claim C5 as stated fails in its last part: for an executor on the policy's whitelist
  the listener returns after the fetch of the audit log and the audit table stays empty.
\<close>

theorem listener_whitelisted_no_record_counterexample:
  "audit_first whitelisting_world ''ChannelDelete'' = Some \<lparr> executor = Some ''200'', target = None \<rparr>
   \<and> whitelist (fst (getSettings (engine whitelisting_world) ''1'')) = Some [''200'']
   \<and> fst (isWhitelisted ''1'' ''200'' whitelisting_world) = Inr True
   \<and> trace (snd (listener (ChannelDeleteEvent rules_channel) whitelisting_world))
       = [Done (FetchAuditLogs ''ChannelDelete'')]
   \<and> security_events (audit (snd (listener (ChannelDeleteEvent rules_channel) whitelisting_world))) = []"
  by code_simp

theorem listener_whitelisted_witness:
  "audit_first whitelisting_world (audit_type (ChannelDeleteEvent rules_channel))
     = Some \<lparr> executor = Some ''200'', target = None \<rparr>
   \<and> whitelist (fst (getSettings (engine whitelisting_world) (guild_id (guild whitelisting_world))))
       = Some [''200'']
   \<and> \<not> unreachable (store (engine whitelisting_world))
   \<and> fst (listener (ChannelDeleteEvent rules_channel) whitelisting_world) = Inr ()
   \<and> actionTracker (engine (snd (listener (ChannelDeleteEvent rules_channel) whitelisting_world)))
       = Map.empty
   \<and> audit (snd (listener (ChannelDeleteEvent rules_channel) whitelisting_world))
       = \<lparr> security_events = [], security_insert_error = False \<rparr>"
proof -
  have a: "audit_first whitelisting_world (audit_type (ChannelDeleteEvent rules_channel))
             = Some \<lparr> executor = Some ''200'', target = None \<rparr>"
    by (simp add: whitelisting_world_def demo_world_def)
  have e: "executor \<lparr> executor = Some ''200'', target = None \<rparr> = Some ''200''" by simp
  have w: "whitelist (fst (getSettings (engine whitelisting_world) (guild_id (guild whitelisting_world))))
             = Some [''200'']"
    by code_simp
  have m: "''200'' \<in> set [''200'']" by simp
  have r: "\<not> unreachable (store (engine whitelisting_world))"
    by (simp add: whitelisting_world_def demo_world_def fresh_system_def empty_store_def)
  have t: "actionTracker (engine whitelisting_world) = Map.empty"
    and u: "audit whitelisting_world = \<lparr> security_events = [], security_insert_error = False \<rparr>"
    by (simp_all add: whitelisting_world_def demo_world_def fresh_system_def)
  show ?thesis
    using listener_whitelisted[OF a e w m r] a w r t u by simp
qed

text \<open>
  A user who was added with \<open>/antinuke whitelist\<close> or \<open>/trusted add\<close> has a row in
  \<open>trusted_users\<close>. \<open>isWhitelisted\<close> does not recognise the user, and a deletion by the
  user is counted and punished like any other.
\<close>

lemma trusted_actor_example:
  "getTrustedUsers (store (engine trusted_world)) ''1''
     = Inr [[(''guild_id'', JStr ''1''), (''user_id'', JStr ''u-200''), (''added_by'', JStr ''100''),
             (''reason'', JNull),
             (''discord_users'', JObj [(''username'', JStr ''mallory''),
                                       (''discord_user_id'', JStr ''200'')])]]
   \<and> fst (isWhitelisted ''1'' ''200'' trusted_world) = Inr False
   \<and> Done (MemberBan ''200'') \<in> set (trace (snd (listener (ChannelDeleteEvent rules_channel) trusted_world)))
   \<and> stored (engine (snd (listener (ChannelDeleteEvent rules_channel) trusted_world)))
         ''1'' ''200'' ''CHANNEL_DELETE'' = [998, 999, 1000]"
  by code_simp

subsection \<open>Lockdown and unlock\<close>

lemma unlock_loop:
  assumes "\<forall>tr c. \<not> rejects wd tr c"
  shows "fst (forEach cs (\<lambda>c.
                   if channel_name c = server_lockdown_name \<or> channel_name c = night_lockdown_name
                   then request (ChannelDelete (channel_id c))
                   else request (OverwritesEdit (channel_id c) None)) wd) = Inr ()
       \<and> channels (guild (snd (forEach cs (\<lambda>c.
                   if channel_name c = server_lockdown_name \<or> channel_name c = night_lockdown_name
                   then request (ChannelDelete (channel_id c))
                   else request (OverwritesEdit (channel_id c) None)) wd)))
          = fold unlock_step cs (channels (guild wd))"
  using assms
proof (induction cs arbitrary: wd)
  case Nil
  then show ?case by (simp add: ret_def)
next
  case (Cons c cs)
  let ?body = "\<lambda>c. if channel_name c = server_lockdown_name \<or> channel_name c = night_lockdown_name
                   then request (ChannelDelete (channel_id c))
                   else request (OverwritesEdit (channel_id c) None)"
  have nr: "\<not> rejects wd (trace wd) x" for x using Cons.prems by simp
  have f: "fst (?body c wd) = Inr ()" using nr by (simp add: request_def)
  have r: "\<forall>tr x. \<not> rejects (snd (?body c wd)) tr x"
    using Cons.prems nr by (simp add: request_def)
  have ch: "channels (guild (snd (?body c wd))) = unlock_step c (channels (guild wd))"
    using nr by (simp add: request_def unlock_step_def)
  show ?case using Cons.IH[OF r] f ch by (simp add: andThen_alt)
qed

lemma fold_unlock_step:
  "fold unlock_step cs chans =
     map (\<lambda>d. if channel_id d \<in> set (map channel_id (filter (\<lambda>c. \<not> lockdown_named c) cs))
               then d\<lparr>everyone_SendMessages := None\<rparr> else d)
       (filter (\<lambda>d. channel_id d \<notin> set (map channel_id (filter lockdown_named cs))) chans)"
proof (induction cs arbitrary: chans)
  case Nil
  then show ?case by simp
next
  case (Cons c cs)
  have "fold unlock_step (c # cs) chans = fold unlock_step cs (unlock_step c chans)" by simp
  also have "\<dots> =
     map (\<lambda>d. if channel_id d \<in> set (map channel_id (filter (\<lambda>c. \<not> lockdown_named c) cs))
               then d\<lparr>everyone_SendMessages := None\<rparr> else d)
       (filter (\<lambda>d. channel_id d \<notin> set (map channel_id (filter lockdown_named cs)))
          (unlock_step c chans))"
    by (rule Cons.IH)
  also have "\<dots> =
     map (\<lambda>d. if channel_id d \<in> set (map channel_id (filter (\<lambda>c. \<not> lockdown_named c) (c # cs)))
               then d\<lparr>everyone_SendMessages := None\<rparr> else d)
       (filter (\<lambda>d. channel_id d \<notin> set (map channel_id (filter lockdown_named (c # cs)))) chans)"
  proof (cases "lockdown_named c")
    case True
    have "filter (\<lambda>d. channel_id d \<notin> set (map channel_id (filter lockdown_named cs)))
            (filter (\<lambda>d. channel_id d \<noteq> channel_id c) chans)
          = filter (\<lambda>d. channel_id d \<notin> set (map channel_id (filter lockdown_named (c # cs)))) chans"
      using True by (auto intro: filter_cong)
    then show ?thesis using True by (simp add: unlock_step_def lockdown_named_def)
  next
    case False
    let ?f = "\<lambda>d. if channel_id d = channel_id c then d\<lparr>everyone_SendMessages := None\<rparr> else d"
    have id: "channel_id (?f d) = channel_id d" for d :: channel by simp
    have 1: "filter (\<lambda>d. channel_id d \<notin> set (map channel_id (filter lockdown_named cs))) (map ?f chans)
          = map ?f (filter (\<lambda>d. channel_id d \<notin> set (map channel_id (filter lockdown_named (c # cs)))) chans)"
      using False by (simp add: filter_map comp_def id)
    have 2: "(if channel_id (?f d) \<in> set (map channel_id (filter (\<lambda>c. \<not> lockdown_named c) cs))
              then (?f d)\<lparr>everyone_SendMessages := None\<rparr> else ?f d)
           = (if channel_id d \<in> set (map channel_id (filter (\<lambda>c. \<not> lockdown_named c) (c # cs)))
              then d\<lparr>everyone_SendMessages := None\<rparr> else d)" for d :: channel
      using False by simp
    have "unlock_step c chans = map ?f chans"
      using False by (simp add: unlock_step_def lockdown_named_def)
    then show ?thesis using 1 2 by (simp add: comp_def)
  qed
  finally show ?case .
qed

text \<open>
  Claim C8, amended. When no request is rejected (and channel ids are distinct),
  \<open>unlockServer\<close> returns true, deletes every text channel that bears one of the two
  lockdown names, and leaves the send permission of the default role unset on every other
  text channel, whatever it was before the lockdown; other channels are untouched.
\<close>

theorem unlockServer_resets_send_permission:
  assumes "\<forall>tr c. \<not> rejects wd tr c"
    and "distinct (map channel_id (channels (guild wd)))"
  shows "fst (unlockServer wd) = Inr True
       \<and> channels (guild (snd (unlockServer wd))) =
           map (\<lambda>c. if isTextBased c then c\<lparr>everyone_SendMessages := None\<rparr> else c)
             (filter (\<lambda>c. \<not> (isTextBased c \<and>
                 (channel_name c = server_lockdown_name \<or> channel_name c = night_lockdown_name)))
               (channels (guild wd)))"
proof -
  let ?chans = "channels (guild wd)"
  have eq: "c = d" if "c \<in> set ?chans" "d \<in> set ?chans" "channel_id c = channel_id d" for c d
    using assms(2) that by (meson distinct_map inj_onD)
  have D: "channel_id d \<in> set (map channel_id (filter (\<lambda>c. isTextBased c \<and> lockdown_named c) ?chans))
             \<longleftrightarrow> isTextBased d \<and> lockdown_named d" if "d \<in> set ?chans" for d
    using that eq by auto
  have U: "channel_id d \<in> set (map channel_id (filter (\<lambda>c. isTextBased c \<and> \<not> lockdown_named c) ?chans))
             \<longleftrightarrow> isTextBased d \<and> \<not> lockdown_named d" if "d \<in> set ?chans" for d
    using that eq by auto
  have F: "filter (\<lambda>d. channel_id d \<notin> set (map channel_id (filter lockdown_named (filter isTextBased ?chans)))) ?chans
           = filter (\<lambda>c. \<not> (isTextBased c \<and> lockdown_named c)) ?chans"
    by (rule filter_cong) (simp_all add: D del: set_map set_filter)
  have closed: "fold unlock_step (filter isTextBased ?chans) ?chans =
           map (\<lambda>c. if isTextBased c then c\<lparr>everyone_SendMessages := None\<rparr> else c)
             (filter (\<lambda>c. \<not> (isTextBased c \<and> lockdown_named c)) ?chans)"
    unfolding fold_unlock_step F
  proof (rule map_cong[OF refl])
    fix x
    assume "x \<in> set (filter (\<lambda>c. \<not> (isTextBased c \<and> lockdown_named c)) ?chans)"
    then have x: "x \<in> set ?chans" and nx: "\<not> (isTextBased x \<and> lockdown_named x)" by auto
    show "(if channel_id x \<in> set (map channel_id (filter (\<lambda>c. \<not> lockdown_named c) (filter isTextBased ?chans)))
           then x\<lparr>everyone_SendMessages := None\<rparr> else x)
          = (if isTextBased x then x\<lparr>everyone_SendMessages := None\<rparr> else x)"
      using U[OF x] nx by simp
  qed
  show ?thesis
    using unlock_loop[OF assms(1), of "filter isTextBased ?chans"] closed
    by (simp add: unlockServer_def tryCatch_alt andThen_alt gets_def ret_def lockdown_named_def)
qed

text \<open>
  Claim C8 as stated fails: a channel that allowed the default role to send and a channel
  that denied it are both denied by the lockdown, and after the unlock both have the
  permission unset, so neither is back in its prior state. The announcement channel is
  removed.
\<close>

theorem unlockServer_prior_state_counterexample:
  "map everyone_SendMessages (channels (guild two_channel_world)) = [Some True, Some False]
   \<and> map (\<lambda>c. (channel_name c, everyone_SendMessages c))
         (channels (guild (snd (initiateServerLockdown two_channel_world))))
       = [(''general'', Some False), (''announcements'', Some False), (server_lockdown_name, None)]
   \<and> fst (unlockServer (snd (initiateServerLockdown two_channel_world))) = Inr True
   \<and> map (\<lambda>c. (channel_name c, everyone_SendMessages c))
         (channels (guild (snd (unlockServer (snd (initiateServerLockdown two_channel_world))))))
       = [(''general'', None), (''announcements'', None)]"
  by code_simp

theorem unlockServer_resets_send_permission_witness:
  "(\<forall>tr c. \<not> rejects locked_world tr c)
   \<and> distinct (map channel_id (channels (guild locked_world)))
   \<and> fst (unlockServer locked_world) = Inr True
   \<and> channels (guild (snd (unlockServer locked_world)))
       = [general_channel\<lparr>everyone_SendMessages := None\<rparr>,
          announcements_channel\<lparr>everyone_SendMessages := None\<rparr>]"
proof -
  have r: "\<forall>tr c. \<not> rejects locked_world tr c"
    by (simp add: locked_world_def demo_world_def)
  have c: "channels (guild locked_world) =
        [general_channel\<lparr>everyone_SendMessages := Some False\<rparr>, announcements_channel,
         \<lparr> channel_id = ''13'', channel_name = server_lockdown_name, has_guild = True,
           isTextBased = True, everyone_SendMessages = None \<rparr>]"
    by (simp add: locked_world_def)
  have d: "distinct (map channel_id (channels (guild locked_world)))"
    by (simp add: c general_channel_def announcements_channel_def)
  have n: "channel_name general_channel \<noteq> server_lockdown_name"
     "channel_name general_channel \<noteq> night_lockdown_name"
     "channel_name announcements_channel \<noteq> server_lockdown_name"
     "channel_name announcements_channel \<noteq> night_lockdown_name"
     "isTextBased general_channel" "isTextBased announcements_channel"
    by (simp_all add: general_channel_def announcements_channel_def server_lockdown_name_def
        night_lockdown_name_def)
  show ?thesis
    using unlockServer_resets_send_permission[OF r d] r d n by (simp add: c)
qed

subsection \<open>Enforcement tiers: kick, mute, delete\<close>

lemma sat_ret: "Q (Inr x) [] \<Longrightarrow> run_sat (ret x) st Q"
  unfolding run_sat_def by (rule exI[of _ "[]"]) (simp add: ret_def)

lemma sat_gets: "Q (Inr (f st)) [] \<Longrightarrow> run_sat (gets f) st Q"
  unfolding run_sat_def by (rule exI[of _ "[]"]) (simp add: gets_def)

lemma sat_perform:
  assumes "throws st (log st) c \<Longrightarrow> Q (Inl PlatformError) [Threw c]"
    and "\<not> throws st (log st) c \<Longrightarrow> Q (Inr ()) [Succeeded c]"
  shows "run_sat (perform c) st Q"
proof (cases "throws st (log st) c")
  case True
  then show ?thesis using assms(1) unfolding run_sat_def
    by (intro exI[of _ "[Threw c]"]) (simp add: perform_def)
next
  case False
  then show ?thesis using assms(2) unfolding run_sat_def
    by (intro exI[of _ "[Succeeded c]"]) (simp add: perform_def)
qed

lemma sat_andThen:
  assumes "run_sat a st (\<lambda>r es. case r of
              Inl e \<Rightarrow> Q (Inl e) es
            | Inr x \<Rightarrow> run_sat (k x) (st\<lparr>log := log st @ es\<rparr>) (\<lambda>r' es'. Q r' (es @ es')))"
  shows "run_sat (andThen a k) st Q"
proof -
  from assms obtain es where s: "snd (a st) = st\<lparr>log := log st @ es\<rparr>"
    and c: "case fst (a st) of
              Inl e \<Rightarrow> Q (Inl e) es
            | Inr x \<Rightarrow> run_sat (k x) (st\<lparr>log := log st @ es\<rparr>) (\<lambda>r' es'. Q r' (es @ es'))"
    by (auto simp: run_sat_def)
  show ?thesis
  proof (cases "fst (a st)")
    case (Inl e)
    then show ?thesis using s c unfolding run_sat_def
      by (intro exI[of _ es]) (simp add: andThen_alt)
  next
    case (Inr x)
    then obtain es' where "snd (k x (st\<lparr>log := log st @ es\<rparr>)) = st\<lparr>log := log st @ es @ es'\<rparr>"
      and "Q (fst (k x (st\<lparr>log := log st @ es\<rparr>))) (es @ es')"
      using c by (auto simp: run_sat_def)
    then show ?thesis using s Inr unfolding run_sat_def
      by (intro exI[of _ "es @ es'"]) (simp add: andThen_alt)
  qed
qed

lemma sat_tryCatch:
  assumes "run_sat a st (\<lambda>r es. case r of
              Inr x \<Rightarrow> Q (Inr x) es
            | Inl e \<Rightarrow> run_sat (h e) (st\<lparr>log := log st @ es\<rparr>) (\<lambda>r' es'. Q r' (es @ es')))"
  shows "run_sat (tryCatch a h) st Q"
proof -
  from assms obtain es where s: "snd (a st) = st\<lparr>log := log st @ es\<rparr>"
    and c: "case fst (a st) of
              Inr x \<Rightarrow> Q (Inr x) es
            | Inl e \<Rightarrow> run_sat (h e) (st\<lparr>log := log st @ es\<rparr>) (\<lambda>r' es'. Q r' (es @ es'))"
    by (auto simp: run_sat_def)
  show ?thesis
  proof (cases "fst (a st)")
    case (Inr x)
    then show ?thesis using s c unfolding run_sat_def
      by (intro exI[of _ es]) (simp add: tryCatch_alt)
  next
    case (Inl e)
    then obtain es' where "snd (h e (st\<lparr>log := log st @ es\<rparr>)) = st\<lparr>log := log st @ es @ es'\<rparr>"
      and "Q (fst (h e (st\<lparr>log := log st @ es\<rparr>))) (es @ es')"
      using c by (auto simp: run_sat_def)
    then show ?thesis using s Inl unfolding run_sat_def
      by (intro exI[of _ "es @ es'"]) (simp add: tryCatch_alt)
  qed
qed

lemma sat_weaken:
  assumes "run_sat f st P" and "\<And>r es. P r es \<Longrightarrow> Q r es"
  shows "run_sat f st Q"
  using assms by (auto simp: run_sat_def)

lemmas sat_rules = sat_ret sat_gets sat_perform sat_andThen sat_tryCatch

lemma only_calls_simps:
  "only_calls P []"
  "only_calls P (e # es) = (P (event_call e) \<and> only_calls P es)"
  "only_calls P (es @ es') = (only_calls P es \<and> only_calls P es')"
  by (simp_all add: only_calls_def)

lemma only_calls_mono: "only_calls P es \<Longrightarrow> (\<And>c. P c \<Longrightarrow> Q c) \<Longrightarrow> only_calls Q es"
  by (auto simp: only_calls_def list_all_iff)

lemma only_calls_not_attempted: "only_calls P es \<Longrightarrow> \<not> P c \<Longrightarrow> \<not> attempted c es"
  by (force simp: only_calls_def list_all_iff attempted_def)

lemma only_calls_no_throw: "only_calls P es \<Longrightarrow> \<not> P c \<Longrightarrow> Threw c \<notin> set es"
  by (force simp: only_calls_def list_all_iff)

lemma attempted_simps:
  "\<not> attempted c []"
  "attempted c (e # es) = (event_call e = c \<or> attempted c es)"
  "attempted c (es @ es') = (attempted c es \<or> attempted c es')"
  by (cases e; auto simp: attempted_def)+

lemma sat_notifyModLog: "run_sat (notifyModLog a) st (\<lambda>r es. only_calls modlog_call es)"
  unfolding notifyModLog_def
  by (auto intro!: sat_rules simp: only_calls_simps)

lemma modlog_is_delete: "only_calls modlog_call es \<Longrightarrow> only_calls delete_call es"
  by (erule only_calls_mono) (simp add: delete_call_def)

lemma delete_is_mute: "only_calls delete_call es \<Longrightarrow> only_calls mute_call es"
  by (erule only_calls_mono) (simp add: mute_call_def)

lemma sat_handleDelete:
  "run_sat handleDelete st (\<lambda>r es. r = Inr () \<and> attempted (SendToAuthor DeleteTier) es
      \<and> only_calls delete_call es)"
  unfolding handleDelete_def
  by (auto intro!: sat_rules sat_weaken[OF sat_notifyModLog]
      simp: only_calls_simps attempted_simps delete_call_def modlog_is_delete
      split: sum.splits)

lemma mute_unavailable_log [simp]: "mute_unavailable (st\<lparr>log := l\<rparr>) = mute_unavailable st"
  by (simp add: mute_unavailable_def)

lemma kick_unavailable_log [simp]: "kick_unavailable (st\<lparr>log := l\<rparr>) = kick_unavailable st"
  by (simp add: kick_unavailable_def)

lemma delete_no_timeout: "only_calls delete_call es \<Longrightarrow> Threw (TimeoutMember n) \<notin> set es"
  by (erule only_calls_no_throw) (simp add: delete_call_def)

lemma modlog_no_timeout: "only_calls modlog_call es \<Longrightarrow> Threw (TimeoutMember n) \<notin> set es"
  by (erule only_calls_no_throw) simp

lemma sat_handleMute:
  "run_sat handleMute st (\<lambda>r es. r = Inr () \<and> attempted (SendToAuthor MuteTier) es
      \<and> only_calls mute_call es
      \<and> ((mute_unavailable st \<or> Threw (TimeoutMember (10 * 60 * 1000)) \<in> set es)
            \<longrightarrow> attempted (SendToAuthor DeleteTier) es)
      \<and> (\<not> mute_unavailable st \<and> Threw DeleteMessage \<notin> set es
            \<longrightarrow> attempted (TimeoutMember (10 * 60 * 1000)) es))"
  unfolding handleMute_def
  by (auto intro!: sat_rules sat_weaken[OF sat_notifyModLog] sat_weaken[OF sat_handleDelete]
      simp: only_calls_simps attempted_simps mute_call_def delete_call_def modlog_is_delete
        delete_is_mute mute_unavailable_def delete_no_timeout modlog_no_timeout
      split: sum.splits option.splits)

lemma modlog_not_attempted:
  "only_calls modlog_call es \<Longrightarrow> \<not> attempted (SendToAuthor t) es"
  "only_calls modlog_call es \<Longrightarrow> Threw KickMember \<notin> set es"
  by (erule only_calls_not_attempted, simp) (erule only_calls_no_throw, simp)

lemma sat_handleKick:
  "run_sat handleKick st (\<lambda>r es. r = Inr ()
      \<and> ((kick_unavailable st \<or> Threw KickMember \<in> set es) \<longrightarrow> attempted (SendToAuthor MuteTier) es)
      \<and> (attempted (SendToAuthor MuteTier) es
           \<and> (mute_unavailable st \<or> Threw (TimeoutMember (10 * 60 * 1000)) \<in> set es)
          \<longrightarrow> attempted (SendToAuthor DeleteTier) es)
      \<and> (deletable st \<longrightarrow> attempted DeleteMessage es)
      \<and> ((kick_unavailable st \<or> Threw KickMember \<in> set es)
           \<and> \<not> mute_unavailable st \<and> Threw DeleteMessage \<notin> set es
          \<longrightarrow> attempted (TimeoutMember (10 * 60 * 1000)) es))"
  unfolding handleKick_def
  by (auto intro!: sat_rules sat_weaken[OF sat_notifyModLog] sat_weaken[OF sat_handleMute]
      simp: only_calls_simps attempted_simps kick_unavailable_def
        modlog_no_timeout modlog_not_attempted
      split: sum.splits option.splits)

lemma run_sat_new_events:
  assumes "run_sat f st Q"
  shows "Q (fst (f st)) (new_events st (snd (f st)))"
  using assms by (auto simp: run_sat_def new_events_def)

text \<open>
  \<open>handleKick\<close>, \<open>handleMute\<close> and \<open>handleDelete\<close> never end in an error, and
  \<open>executeAction\<close> returns the name of the tier asked for, never an error. In a run of
  \<open>handleKick\<close>: when the member is missing or not kickable, or the kick request throws,
  the mute tier is entered (its direct message is attempted); when the mute tier is
  entered and the member is missing or not moderatable, or the timeout request throws,
  the delete tier is entered; and a deletable message has its deletion attempted. When
  the mute tier is entered for a moderatable member and no deletion of the message is
  rejected in the run, the timeout is requested. The same step from mute to delete holds
  for a run of \<open>handleMute\<close> itself.
\<close>

lemma fallback_chain:
  "fst (handleKick st) = Inr ()
   \<and> (kick_unavailable st \<or> Threw KickMember \<in> set (new_events st (snd (handleKick st)))
        \<longrightarrow> attempted (SendToAuthor MuteTier) (new_events st (snd (handleKick st))))
   \<and> (attempted (SendToAuthor MuteTier) (new_events st (snd (handleKick st)))
        \<and> (mute_unavailable st
            \<or> Threw (TimeoutMember (10 * 60 * 1000)) \<in> set (new_events st (snd (handleKick st))))
        \<longrightarrow> attempted (SendToAuthor DeleteTier) (new_events st (snd (handleKick st))))
   \<and> (deletable st \<longrightarrow> attempted DeleteMessage (new_events st (snd (handleKick st))))
   \<and> ((kick_unavailable st \<or> Threw KickMember \<in> set (new_events st (snd (handleKick st))))
        \<and> \<not> mute_unavailable st \<and> Threw DeleteMessage \<notin> set (new_events st (snd (handleKick st)))
        \<longrightarrow> attempted (TimeoutMember (10 * 60 * 1000)) (new_events st (snd (handleKick st))))
   \<and> fst (handleMute st) = Inr ()
   \<and> (mute_unavailable st \<or> Threw (TimeoutMember (10 * 60 * 1000)) \<in> set (new_events st (snd (handleMute st)))
        \<longrightarrow> attempted (SendToAuthor DeleteTier) (new_events st (snd (handleMute st))))
   \<and> fst (handleDelete st) = Inr ()
   \<and> fst (executeAction ''KICK'' st) = Inr ''KICK''
   \<and> fst (executeAction ''MUTE'' st) = Inr ''MUTE''
   \<and> fst (executeAction ''DELETE'' st) = Inr ''DELETE''"
proof -
  note k = run_sat_new_events[OF sat_handleKick[of st]]
  note m = run_sat_new_events[OF sat_handleMute[of st]]
  note d = run_sat_new_events[OF sat_handleDelete[of st]]
  have e: "fst (executeAction ''KICK'' st) = Inr ''KICK''"
    "fst (executeAction ''MUTE'' st) = Inr ''MUTE''"
    "fst (executeAction ''DELETE'' st) = Inr ''DELETE''"
    using k m d by (simp_all add: executeAction_def tryCatch_alt andThen_alt ret_def)
  show ?thesis using k m d e by blast
qed

lemma fallback_chain_example:
  "kick_unavailable demo_chat
   \<and> log (snd (handleKick demo_chat)) =
       [Succeeded (SendToAuthor KickTier), Succeeded DeleteMessage,
        Succeeded (SendToAuthor MuteTier), Succeeded DeleteMessage, Threw (TimeoutMember 600000),
        Succeeded (SendToAuthor DeleteTier), Succeeded DeleteMessage,
        Succeeded (SendToChannel DeleteTier)]"
  by code_simp

text \<open>
  Claim C7, at an input where the code departs from it. The decision is KICK, the message
  is deletable, the member is not kickable but moderatable, and the platform rejects the
  deletion of a message that is already deleted; every other request succeeds.
  \<open>handleKick\<close> deletes the message, finds the kick unavailable and calls \<open>handleMute\<close>;
  \<open>handleMute\<close> deletes the message again before it looks at the member, the platform
  rejects that, and the catch calls \<open>handleDelete\<close>: the timeout is never requested
  although the mute is available. The same happens when the message was already gone
  before the handler ran. No error reaches the caller.
\<close>

theorem kick_fallback_skips_timeout:
  "kick_unavailable redelete_chat \<and> \<not> mute_unavailable redelete_chat
   \<and> executeAction ''KICK'' redelete_chat =
       (Inr ''KICK'',
        redelete_chat\<lparr>log :=
          [Succeeded (SendToAuthor KickTier), Succeeded DeleteMessage,
           Succeeded (SendToAuthor MuteTier), Threw DeleteMessage,
           Succeeded (SendToAuthor DeleteTier), Threw DeleteMessage]\<rparr>)
   \<and> \<not> attempted (TimeoutMember (10 * 60 * 1000))
         (new_events redelete_chat (snd (executeAction ''KICK'' redelete_chat)))
   \<and> kick_unavailable gone_message_chat \<and> \<not> mute_unavailable gone_message_chat
   \<and> log (snd (executeAction ''KICK'' gone_message_chat)) =
          [Succeeded (SendToAuthor KickTier), Threw DeleteMessage,
           Succeeded (SendToAuthor MuteTier), Threw DeleteMessage,
           Succeeded (SendToAuthor DeleteTier), Threw DeleteMessage]
   \<and> \<not> attempted (TimeoutMember (10 * 60 * 1000))
         (new_events gone_message_chat (snd (executeAction ''KICK'' gone_message_chat)))"
proof -
  have r: "executeAction ''KICK'' redelete_chat =
       (Inr ''KICK'',
        redelete_chat\<lparr>log :=
          [Succeeded (SendToAuthor KickTier), Succeeded DeleteMessage,
           Succeeded (SendToAuthor MuteTier), Threw DeleteMessage,
           Succeeded (SendToAuthor DeleteTier), Threw DeleteMessage]\<rparr>)"
    by (simp add: executeAction_def handleKick_def handleMute_def handleDelete_def redelete_chat_def
        tryCatch_def andThen_def perform_def gets_def ret_def)
  have g: "log (snd (executeAction ''KICK'' gone_message_chat)) =
          [Succeeded (SendToAuthor KickTier), Threw DeleteMessage,
           Succeeded (SendToAuthor MuteTier), Threw DeleteMessage,
           Succeeded (SendToAuthor DeleteTier), Threw DeleteMessage]"
    by (simp add: executeAction_def handleKick_def handleMute_def handleDelete_def gone_message_chat_def
        tryCatch_def andThen_def perform_def gets_def ret_def)
  have l: "log redelete_chat = []" "log gone_message_chat = []"
    by (simp_all add: redelete_chat_def gone_message_chat_def)
  have a: "kick_unavailable redelete_chat" "\<not> mute_unavailable redelete_chat"
    "kick_unavailable gone_message_chat" "\<not> mute_unavailable gone_message_chat"
    by (simp_all add: kick_unavailable_def mute_unavailable_def redelete_chat_def gone_message_chat_def)
  show ?thesis
    using a by (simp add: r g l new_events_def attempted_def)
qed

subsection \<open>The owner bypass\<close>

text \<open>
  Claim C9. For an input whose user is the designated owner, the engine returns the fixed
  decision (score 0, SAFE, ALLOW, "Bot owner - moderation bypassed") whatever the message,
  its history, the warnings, the verification flag, the classifier and the patterns; the
  fallback classifier does the same. The message handler, for a message of the owner,
  returns at once: it sends no request and evaluates nothing further.
\<close>

theorem owner_bypass:
  "(user_id inp = owner_id env \<longrightarrow>
      analyzeMessageWithGroq env inp = owner_decision \<and> fallbackAnalysis env inp = owner_decision)
   \<and> risk_score owner_decision = Some 0
   \<and> risk_level owner_decision = ''SAFE''
   \<and> recommended_action owner_decision = Some ''ALLOW''
   \<and> reasoning owner_decision = Some ''Bot owner - moderation bypassed''
   \<and> (owner_id env = Some (author_id msg) \<longrightarrow> handleMessage env msg st = (Inr (), st))"
  by (auto simp: analyzeMessageWithGroq_def fallbackAnalysis_def owner_decision_def handleMessage_def ret_def)

theorem owner_bypass_witness:
  "user_id (scam_input ''42'') = owner_id hostile_env
   \<and> analyzeMessageWithGroq hostile_env (scam_input ''42'') = owner_decision
   \<and> recommended_action (analyzeMessageWithGroq hostile_env (scam_input ''43'')) = Some ''CAPTCHA''
   \<and> recommended_action (analyzeMessageWithGroq hostile_env ((scam_input ''43'')\<lparr>captcha_verified := True\<rparr>))
       = Some ''KICK''
   \<and> owner_id hostile_env = Some (author_id owner_message)
   \<and> handleMessage hostile_env owner_message demo_chat = (Inr (), demo_chat)"
proof -
  have m: "owner_id hostile_env = Some (author_id owner_message)"
    by (simp add: hostile_env_def owner_message_def)
  have h: "user_id (scam_input ''42'') = owner_id hostile_env"
    by (simp add: scam_input_def hostile_env_def)
  have o: "recommended_action (analyzeMessageWithGroq hostile_env (scam_input ''43'')) = Some ''CAPTCHA''"
    "recommended_action (analyzeMessageWithGroq hostile_env ((scam_input ''43'')\<lparr>captcha_verified := True\<rparr>))
       = Some ''KICK''"
    by (simp_all add: analyzeMessageWithGroq_def scam_input_def hostile_env_def shouldRequireCaptcha_def
        captcha_decision_def adjustForUserHistory_def Let_def)
  show ?thesis
    using owner_bypass[of "scam_input ''42''" hostile_env owner_message demo_chat] h o m by simp
qed

end
